theory Spec2Isabelle
  imports Main "HOL-Library.Word"
begin

unbundle bit_operations_syntax

section \<open>Memory, byte order and the shared context\<close>

text \<open>
  The contexts of cwpack.c hold three pointers into a caller-owned buffer. Pointers are
  addresses (natural numbers) into one byte-addressed memory; the memory is carried in the
  context record so that every operation is a function from context to context.
  \<open>int\<close> and \<open>uint32_t\<close> are 32 bits wide. The width of \<open>long\<close> and \<open>unsigned long\<close>
  is a parameter of every operation, see \<open>long_size\<close>. Addresses do not wrap around.
\<close>

type_synonym byte = "8 word"
type_synonym addr = nat
type_synonym memory = "addr \<Rightarrow> byte"

text \<open>The three ways the preprocessor can configure the load and store macros.\<close>

datatype byte_order =
    COMPILE_FOR_BIG_ENDIAN
  | COMPILE_FOR_LITTLE_ENDIAN
  | BYTE_ORDER_UNDETERMINED

text \<open>
  The width of \<open>long\<close> and \<open>unsigned long\<close>: 64 bits on an LP64 host, 32 bits on an ILP32
  host such as i386 and on an LLP64 host such as 64-bit Windows. Pointer arithmetic is that
  of a host whose pointers do not wrap around below the addresses used (LP64, LLP64); on an
  ILP32 host the operations are as modelled as long as every address stays below \<open>2 ^ 32\<close>.
\<close>

datatype long_size = LONG_32 | LONG_64

definition long_bits :: "long_size \<Rightarrow> nat" where
  "long_bits lw = (case lw of LONG_32 \<Rightarrow> 32 | LONG_64 \<Rightarrow> 64)"

text \<open>
  \<open>(unsigned long)k\<close>: the value modulo \<open>2 ^ long_bits\<close>. \<open>(long)k\<close>: the same, read as two's
  complement.
\<close>

definition to_unsigned_long :: "long_size \<Rightarrow> int \<Rightarrow> nat" where
  "to_unsigned_long lw k = nat (k mod 2 ^ long_bits lw)"

definition to_long :: "long_size \<Rightarrow> int \<Rightarrow> int" where
  "to_long lw k =
     (let r = k mod 2 ^ long_bits lw
      in if r < 2 ^ (long_bits lw - 1) then r else r - 2 ^ long_bits lw)"

text \<open>
  Modelled from the spec: the return codes \<open>CWP_RC_*\<close> are declared in cwpack.h, which is
  not among the sources; section 6 of the specification lists them as a closed
  enumeration in which only OK is zero.
\<close>

datatype cwp_rc =
    CWP_RC_OK
  | CWP_RC_END_OF_INPUT
  | CWP_RC_BUFFER_OVERFLOW
  | CWP_RC_BUFFER_UNDERFLOW
  | CWP_RC_MALFORMED_INPUT
  | CWP_RC_WRONG_BYTE_ORDER
  | CWP_RC_STOPPED

record cw_pack_context =
  mem :: memory
  start :: addr
  current :: addr
  endp :: addr
  return_code :: cwp_rc
  errno :: int

text \<open>
  The handler pointer \<open>handle_pack_overflow\<close> is a field of the C context. A handler takes
  the context itself, so here it is an argument of every operation instead of a field:
  \<open>None\<close> is the null pointer. The handler returns its code and the context as it left it.
\<close>

type_synonym pack_overflow_handler = "cw_pack_context \<Rightarrow> nat \<Rightarrow> cwp_rc \<times> cw_pack_context"

subsection \<open>Bytes of an integer\<close>

text \<open>\<open>be_bytes n x\<close>: the low \<open>n\<close> bytes of \<open>x\<close>, most significant first.\<close>

primrec be_bytes :: "nat \<Rightarrow> 'a::len word \<Rightarrow> byte list" where
  "be_bytes 0 x = []"
| "be_bytes (Suc n) x = ucast (drop_bit (8 * n) x) # be_bytes n x"

definition le_bytes :: "nat \<Rightarrow> 'a::len word \<Rightarrow> byte list" where
  "le_bytes n x = rev (be_bytes n x)"

text \<open>The integer whose bytes, most significant first, are \<open>bs\<close>.\<close>

definition be_word :: "byte list \<Rightarrow> 'a::len word" where
  "be_word bs = foldl (\<lambda>w b. push_bit 8 w OR ucast b) 0 bs"

definition le_word :: "byte list \<Rightarrow> 'a::len word" where
  "le_word bs = be_word (rev bs)"

definition store_bytes :: "memory \<Rightarrow> addr \<Rightarrow> byte list \<Rightarrow> memory" where
  "store_bytes m a bs = (\<lambda>p. if a \<le> p \<and> p < a + length bs then bs ! (p - a) else m p)"

definition load_bytes :: "memory \<Rightarrow> addr \<Rightarrow> nat \<Rightarrow> byte list" where
  "load_bytes m a n = map m [a..<a + n]"

text \<open>
  \<open>obj_rep_be x\<close>: the object representation of an integer variable on a big-endian host,
  that is the bytes found at \<open>&x\<close>, \<open>&x + 1\<close>, ...
\<close>

definition obj_rep_be :: "'a::len word \<Rightarrow> byte list" where
  "obj_rep_be x = be_bytes (LENGTH('a) div 8) x"

section \<open>Packing\<close>

subsection \<open>The store macros\<close>

text \<open>\<open>*(pack_context->current)++ = b\<close>\<close>

definition put_byte :: "byte \<Rightarrow> cw_pack_context \<Rightarrow> cw_pack_context" where
  "put_byte b c = c\<lparr>mem := (mem c)(current c := b), current := current c + 1\<rparr>"

text \<open>
  The byte swaps written out in the little-endian \<open>cw_store32\<close>, \<open>cw_store64\<close> and
  \<open>cw_load64\<close>.
\<close>

definition swap32 :: "32 word \<Rightarrow> 32 word" where
  "swap32 x =
     drop_bit 24 x OR drop_bit 8 (x AND 0x00ff0000) OR push_bit 8 (x AND 0x0000ff00)
       OR push_bit 24 x"

definition swap64 :: "64 word \<Rightarrow> 64 word" where
  "swap64 x =
     ((drop_bit 40 x OR push_bit 24 x) AND 0x0000ff000000ff00)
       OR ((drop_bit 24 x OR push_bit 40 x) AND 0x00ff000000ff0000)
       OR drop_bit 8 (x AND 0x000000ff00000000)
       OR push_bit 8 (x AND 0x00000000ff000000)
       OR drop_bit 56 x
       OR push_bit 56 x"

text \<open>
  \<open>cw_store16\<close>. Compiled for big endian it is
  \<open>*(uint16_t*)current = *(uint16_t*)&x; current += 2\<close>: it copies the two bytes at the
  address of the operand. Otherwise it is two byte stores of \<open>d >> 8\<close> and \<open>d\<close>. (For the
  \<open>int64_t\<close> operand of \<open>cw_pack_signed\<close> the C shift is arithmetic; the byte that the
  cast to \<open>uint8_t\<close> keeps is the same.)
\<close>

definition cw_store16 :: "byte_order \<Rightarrow> 'a::len word \<Rightarrow> cw_pack_context \<Rightarrow> cw_pack_context" where
  "cw_store16 bo x c =
     (case bo of
        COMPILE_FOR_BIG_ENDIAN \<Rightarrow>
          c\<lparr>mem := store_bytes (mem c) (current c) (take 2 (obj_rep_be x)),
            current := current c + 2\<rparr>
      | _ \<Rightarrow> put_byte (ucast x) (put_byte (ucast (drop_bit 8 x)) c))"

text \<open>
  \<open>cw_store32\<close>: big endian copies four bytes from the address of the operand; little
  endian stores the swapped \<open>(uint32_t)x\<close> as one 32-bit integer of the host; otherwise four
  byte stores.
\<close>

definition cw_store32 :: "byte_order \<Rightarrow> 'a::len word \<Rightarrow> cw_pack_context \<Rightarrow> cw_pack_context" where
  "cw_store32 bo x c =
     (case bo of
        COMPILE_FOR_BIG_ENDIAN \<Rightarrow>
          c\<lparr>mem := store_bytes (mem c) (current c) (take 4 (obj_rep_be x)),
            current := current c + 4\<rparr>
      | COMPILE_FOR_LITTLE_ENDIAN \<Rightarrow>
          c\<lparr>mem := store_bytes (mem c) (current c) (le_bytes 4 (swap32 (ucast x))),
            current := current c + 4\<rparr>
      | BYTE_ORDER_UNDETERMINED \<Rightarrow>
          put_byte (ucast x) (put_byte (ucast (drop_bit 8 x))
            (put_byte (ucast (drop_bit 16 x)) (put_byte (ucast (drop_bit 24 x)) c))))"

definition cw_store64 :: "byte_order \<Rightarrow> 64 word \<Rightarrow> cw_pack_context \<Rightarrow> cw_pack_context" where
  "cw_store64 bo x c =
     (case bo of
        COMPILE_FOR_BIG_ENDIAN \<Rightarrow>
          c\<lparr>mem := store_bytes (mem c) (current c) (take 8 (obj_rep_be x)),
            current := current c + 8\<rparr>
      | COMPILE_FOR_LITTLE_ENDIAN \<Rightarrow>
          c\<lparr>mem := store_bytes (mem c) (current c) (le_bytes 8 (swap64 x)),
            current := current c + 8\<rparr>
      | BYTE_ORDER_UNDETERMINED \<Rightarrow>
          put_byte (ucast x) (put_byte (ucast (drop_bit 8 x))
            (put_byte (ucast (drop_bit 16 x)) (put_byte (ucast (drop_bit 24 x))
            (put_byte (ucast (drop_bit 32 x)) (put_byte (ucast (drop_bit 40 x))
            (put_byte (ucast (drop_bit 48 x)) (put_byte (ucast (drop_bit 56 x)) c))))))))"

subsection \<open>Reserving space\<close>

text \<open>
  \<open>cw_pack_reserve_space(more)\<close>. \<open>Inl\<close> is the macro's \<open>return\<close> out of the enclosing
  function; \<open>Inr\<close> falls through. The comparison is between two \<open>unsigned long\<close>:
  \<open>window\<close> is \<open>(unsigned long)(end - current)\<close>.

  The macro uses its argument twice. The test has \<open>(unsigned long)(more)\<close>: the argument is
  evaluated in its own type and then widened; this is \<open>tested\<close>. The handler call has
  \<open>(unsigned long)more\<close> without parentheses: for an argument \<open>l+5\<close> that is
  \<open>(unsigned long)l + 5\<close>, computed in \<open>unsigned long\<close>; this is \<open>handed\<close>.
\<close>

definition window :: "long_size \<Rightarrow> cw_pack_context \<Rightarrow> nat" where
  "window lw c = to_unsigned_long lw (int (endp c) - int (current c))"

definition cw_pack_reserve_space ::
  "long_size \<Rightarrow> pack_overflow_handler option \<Rightarrow> nat \<Rightarrow> nat \<Rightarrow> cw_pack_context
     \<Rightarrow> (cwp_rc \<times> cw_pack_context) + cw_pack_context" where
  "cw_pack_reserve_space lw hpo tested handed c =
     (if tested > window lw c then
        (case hpo of
           None \<Rightarrow> Inl (CWP_RC_BUFFER_OVERFLOW, c\<lparr>return_code := CWP_RC_BUFFER_OVERFLOW\<rparr>)
         | Some h \<Rightarrow>
             (case h c handed of (rc, c') \<Rightarrow>
                if rc \<noteq> CWP_RC_OK then Inl (rc, c'\<lparr>return_code := rc\<rparr>) else Inr c'))
      else Inr c)"

definition tryMove0 ::
  "long_size \<Rightarrow> pack_overflow_handler option \<Rightarrow> byte \<Rightarrow> cw_pack_context \<Rightarrow> cwp_rc \<times> cw_pack_context" where
  "tryMove0 lw hpo t c =
     (case cw_pack_reserve_space lw hpo 1 1 c of
        Inl r \<Rightarrow> r
      | Inr c1 \<Rightarrow> (CWP_RC_OK, put_byte t c1))"

definition tryMove1 ::
  "long_size \<Rightarrow> pack_overflow_handler option \<Rightarrow> byte \<Rightarrow> byte \<Rightarrow> cw_pack_context \<Rightarrow> cwp_rc \<times> cw_pack_context" where
  "tryMove1 lw hpo t d c =
     (case cw_pack_reserve_space lw hpo 2 2 c of
        Inl r \<Rightarrow> r
      | Inr c1 \<Rightarrow> (CWP_RC_OK, put_byte d (put_byte t c1)))"

definition tryMove2 ::
  "long_size \<Rightarrow> byte_order \<Rightarrow> pack_overflow_handler option \<Rightarrow> byte \<Rightarrow> 'a::len word \<Rightarrow> cw_pack_context
     \<Rightarrow> cwp_rc \<times> cw_pack_context" where
  "tryMove2 lw bo hpo t d c =
     (case cw_pack_reserve_space lw hpo 3 3 c of
        Inl r \<Rightarrow> r
      | Inr c1 \<Rightarrow> (CWP_RC_OK, cw_store16 bo d (put_byte t c1)))"

definition tryMove4 ::
  "long_size \<Rightarrow> byte_order \<Rightarrow> pack_overflow_handler option \<Rightarrow> byte \<Rightarrow> 'a::len word \<Rightarrow> cw_pack_context
     \<Rightarrow> cwp_rc \<times> cw_pack_context" where
  "tryMove4 lw bo hpo t d c =
     (case cw_pack_reserve_space lw hpo 5 5 c of
        Inl r \<Rightarrow> r
      | Inr c1 \<Rightarrow> (CWP_RC_OK, cw_store32 bo d (put_byte t c1)))"

definition tryMove8 ::
  "long_size \<Rightarrow> byte_order \<Rightarrow> pack_overflow_handler option \<Rightarrow> byte \<Rightarrow> 64 word \<Rightarrow> cw_pack_context
     \<Rightarrow> cwp_rc \<times> cw_pack_context" where
  "tryMove8 lw bo hpo t d c =
     (case cw_pack_reserve_space lw hpo 9 9 c of
        Inl r \<Rightarrow> r
      | Inr c1 \<Rightarrow> (CWP_RC_OK, cw_store64 bo d (put_byte t c1)))"

subsection \<open>The packing operations\<close>

definition cw_pack_unsigned ::
  "long_size \<Rightarrow> byte_order \<Rightarrow> pack_overflow_handler option \<Rightarrow> cw_pack_context \<Rightarrow> 64 word
     \<Rightarrow> cwp_rc \<times> cw_pack_context" where
  "cw_pack_unsigned lw bo hpo c i =
     (if return_code c \<noteq> CWP_RC_OK then (CWP_RC_STOPPED, c)
      else if i < 128 then tryMove0 lw hpo (ucast i) c
      else if i < 256 then tryMove1 lw hpo 0xcc (ucast i) c
      else if i < 0x10000 then tryMove2 lw bo hpo 0xcd i c
      else if i < 0x100000000 then tryMove4 lw bo hpo 0xce i c
      else tryMove8 lw bo hpo 0xcf i c)"

text \<open>The argument is an \<open>int64_t\<close>: the comparisons read the word as two's complement.\<close>

definition cw_pack_signed ::
  "long_size \<Rightarrow> byte_order \<Rightarrow> pack_overflow_handler option \<Rightarrow> cw_pack_context \<Rightarrow> 64 word
     \<Rightarrow> cwp_rc \<times> cw_pack_context" where
  "cw_pack_signed lw bo hpo c i =
     (if return_code c \<noteq> CWP_RC_OK then (CWP_RC_STOPPED, c)
      else if 0 \<le> sint i then cw_pack_unsigned lw bo hpo c i
      else if - 32 \<le> sint i then tryMove0 lw hpo (ucast i) c
      else if - 128 \<le> sint i then tryMove1 lw hpo 0xd0 (ucast i) c
      else if - 32768 \<le> sint i then tryMove2 lw bo hpo 0xd1 i c
      else if - 0x80000000 \<le> sint i then tryMove4 lw bo hpo 0xd2 i c
      else tryMove8 lw bo hpo 0xd3 i c)"

text \<open>
  \<open>cw_pack_float\<close> and \<open>cw_pack_double\<close> use their argument only through its bit pattern
  (\<open>tmp = *((uint32_t*)&f)\<close>); the argument here is that pattern.
\<close>

definition cw_pack_float ::
  "long_size \<Rightarrow> byte_order \<Rightarrow> pack_overflow_handler option \<Rightarrow> cw_pack_context \<Rightarrow> 32 word
     \<Rightarrow> cwp_rc \<times> cw_pack_context" where
  "cw_pack_float lw bo hpo c tmp =
     (if return_code c \<noteq> CWP_RC_OK then (CWP_RC_STOPPED, c)
      else tryMove4 lw bo hpo 0xca tmp c)"

definition cw_pack_double ::
  "long_size \<Rightarrow> byte_order \<Rightarrow> pack_overflow_handler option \<Rightarrow> cw_pack_context \<Rightarrow> 64 word
     \<Rightarrow> cwp_rc \<times> cw_pack_context" where
  "cw_pack_double lw bo hpo c tmp =
     (if return_code c \<noteq> CWP_RC_OK then (CWP_RC_STOPPED, c)
      else tryMove8 lw bo hpo 0xcb tmp c)"

definition cw_pack_nil ::
  "long_size \<Rightarrow> pack_overflow_handler option \<Rightarrow> cw_pack_context \<Rightarrow> cwp_rc \<times> cw_pack_context" where
  "cw_pack_nil lw hpo c =
     (if return_code c \<noteq> CWP_RC_OK then (CWP_RC_STOPPED, c)
      else tryMove0 lw hpo 0xc0 c)"

definition cw_pack_boolean ::
  "long_size \<Rightarrow> pack_overflow_handler option \<Rightarrow> cw_pack_context \<Rightarrow> bool \<Rightarrow> cwp_rc \<times> cw_pack_context" where
  "cw_pack_boolean lw hpo c b =
     (if return_code c \<noteq> CWP_RC_OK then (CWP_RC_STOPPED, c)
      else tryMove0 lw hpo (if b then 0xc3 else 0xc2) c)"

definition cw_pack_array_size ::
  "long_size \<Rightarrow> byte_order \<Rightarrow> pack_overflow_handler option \<Rightarrow> cw_pack_context \<Rightarrow> 32 word
     \<Rightarrow> cwp_rc \<times> cw_pack_context" where
  "cw_pack_array_size lw bo hpo c n =
     (if return_code c \<noteq> CWP_RC_OK then (CWP_RC_STOPPED, c)
      else if n < 16 then tryMove0 lw hpo (ucast (0x90 OR n)) c
      else if n < 65536 then tryMove2 lw bo hpo 0xdc n c
      else tryMove4 lw bo hpo 0xdd n c)"

definition cw_pack_map_size ::
  "long_size \<Rightarrow> byte_order \<Rightarrow> pack_overflow_handler option \<Rightarrow> cw_pack_context \<Rightarrow> 32 word
     \<Rightarrow> cwp_rc \<times> cw_pack_context" where
  "cw_pack_map_size lw bo hpo c n =
     (if return_code c \<noteq> CWP_RC_OK then (CWP_RC_STOPPED, c)
      else if n < 16 then tryMove0 lw hpo (ucast (0x80 OR n)) c
      else if n < 65536 then tryMove2 lw bo hpo 0xde n c
      else tryMove4 lw bo hpo 0xdf n c)"

text \<open>
  \<open>memcpy (dst, src, n)\<close> on the memory: the \<open>n\<close> bytes at \<open>src\<close> are read before any is
  written (C leaves overlapping areas undefined).
\<close>

definition memcpy :: "memory \<Rightarrow> addr \<Rightarrow> addr \<Rightarrow> nat \<Rightarrow> memory" where
  "memcpy m dst src n = (\<lambda>p. if dst \<le> p \<and> p < dst + n then m (src + (p - dst)) else m p)"

text \<open>The common tail of the blob operations: \<open>memcpy (current, v, l); current += l\<close>.\<close>

definition copy_blob :: "addr \<Rightarrow> 32 word \<Rightarrow> cw_pack_context \<Rightarrow> cw_pack_context" where
  "copy_blob v l c =
     c\<lparr>mem := memcpy (mem c) (current c) v (unat l), current := current c + unat l\<rparr>"

text \<open>
  The blob operations take the address \<open>v\<close> of the payload and its length \<open>l\<close>, a
  \<open>uint32_t\<close>. The sizes that \<open>cw_pack_reserve_space\<close> tests (\<open>l+1\<close>, \<open>l+2\<close>, ...) are computed
  in \<open>uint32_t\<close> and wrap around before the macro widens them to \<open>unsigned long\<close>; the
  sizes it hands to the handler are computed in \<open>unsigned long\<close>.
\<close>

definition cw_pack_str ::
  "long_size \<Rightarrow> byte_order \<Rightarrow> pack_overflow_handler option \<Rightarrow> cw_pack_context \<Rightarrow> addr \<Rightarrow> 32 word
     \<Rightarrow> cwp_rc \<times> cw_pack_context" where
  "cw_pack_str lw bo hpo c v l =
     (if return_code c \<noteq> CWP_RC_OK then (CWP_RC_STOPPED, c)
      else if l < 32 then
        (case cw_pack_reserve_space lw hpo (unat (l + 1))
                (to_unsigned_long lw (uint l + 1)) c of
           Inl r \<Rightarrow> r
         | Inr c1 \<Rightarrow>
             (let c2 = put_byte (ucast (0xa0 + l)) c1
              in if l = 0 then (CWP_RC_OK, c2) else (CWP_RC_OK, copy_blob v l c2)))
      else if l < 256 then
        (case cw_pack_reserve_space lw hpo (unat (l + 2))
                (to_unsigned_long lw (uint l + 2)) c of
           Inl r \<Rightarrow> r
         | Inr c1 \<Rightarrow> (CWP_RC_OK, copy_blob v l (put_byte (ucast l) (put_byte 0xd9 c1))))
      else if l < 65536 then
        (case cw_pack_reserve_space lw hpo (unat (l + 3))
                (to_unsigned_long lw (uint l + 3)) c of
           Inl r \<Rightarrow> r
         | Inr c1 \<Rightarrow> (CWP_RC_OK, copy_blob v l (cw_store16 bo l (put_byte 0xda c1))))
      else
        (case cw_pack_reserve_space lw hpo (unat (l + 5))
                (to_unsigned_long lw (uint l + 5)) c of
           Inl r \<Rightarrow> r
         | Inr c1 \<Rightarrow> (CWP_RC_OK, copy_blob v l (cw_store32 bo l (put_byte 0xdb c1)))))"

definition cw_pack_bin ::
  "long_size \<Rightarrow> byte_order \<Rightarrow> pack_overflow_handler option \<Rightarrow> cw_pack_context \<Rightarrow> addr \<Rightarrow> 32 word
     \<Rightarrow> cwp_rc \<times> cw_pack_context" where
  "cw_pack_bin lw bo hpo c v l =
     (if return_code c \<noteq> CWP_RC_OK then (CWP_RC_STOPPED, c)
      else if l < 256 then
        (case cw_pack_reserve_space lw hpo (unat (l + 2))
                (to_unsigned_long lw (uint l + 2)) c of
           Inl r \<Rightarrow> r
         | Inr c1 \<Rightarrow> (CWP_RC_OK, copy_blob v l (put_byte (ucast l) (put_byte 0xc4 c1))))
      else if l < 65536 then
        (case cw_pack_reserve_space lw hpo (unat (l + 3))
                (to_unsigned_long lw (uint l + 3)) c of
           Inl r \<Rightarrow> r
         | Inr c1 \<Rightarrow> (CWP_RC_OK, copy_blob v l (cw_store16 bo l (put_byte 0xc5 c1))))
      else
        (case cw_pack_reserve_space lw hpo (unat (l + 5))
                (to_unsigned_long lw (uint l + 5)) c of
           Inl r \<Rightarrow> r
         | Inr c1 \<Rightarrow> (CWP_RC_OK, copy_blob v l (cw_store32 bo l (put_byte 0xc6 c1)))))"

text \<open>
  \<open>cw_pack_ext\<close>: \<open>ext_header\<close> is the \<open>switch\<close>, which for a length of 1 writes the whole
  item and returns; the other cases fall to the common tail that writes the type byte
  and copies the payload. The \<open>int8_t type\<close> is passed as its byte.
\<close>

definition ext_header ::
  "long_size \<Rightarrow> byte_order \<Rightarrow> pack_overflow_handler option \<Rightarrow> cw_pack_context \<Rightarrow> byte \<Rightarrow> addr \<Rightarrow> 32 word
     \<Rightarrow> (cwp_rc \<times> cw_pack_context) + cw_pack_context" where
  "ext_header lw bo hpo c type v l =
     (if l = 1 then
        (case cw_pack_reserve_space lw hpo 3 3 c of
           Inl r \<Rightarrow> Inl r
         | Inr c1 \<Rightarrow>
             (let c2 = put_byte type (put_byte 0xd4 c1)
              in Inl (CWP_RC_OK, put_byte (mem c2 v) c2)))
      else if l = 2 then
        (case cw_pack_reserve_space lw hpo 4 4 c of
           Inl r \<Rightarrow> Inl r | Inr c1 \<Rightarrow> Inr (put_byte 0xd5 c1))
      else if l = 4 then
        (case cw_pack_reserve_space lw hpo 6 6 c of
           Inl r \<Rightarrow> Inl r | Inr c1 \<Rightarrow> Inr (put_byte 0xd6 c1))
      else if l = 8 then
        (case cw_pack_reserve_space lw hpo 10 10 c of
           Inl r \<Rightarrow> Inl r | Inr c1 \<Rightarrow> Inr (put_byte 0xd7 c1))
      else if l = 16 then
        (case cw_pack_reserve_space lw hpo 18 18 c of
           Inl r \<Rightarrow> Inl r | Inr c1 \<Rightarrow> Inr (put_byte 0xd8 c1))
      else if l < 256 then
        (case cw_pack_reserve_space lw hpo (unat (l + 3))
                (to_unsigned_long lw (uint l + 3)) c of
           Inl r \<Rightarrow> Inl r | Inr c1 \<Rightarrow> Inr (put_byte (ucast l) (put_byte 0xc7 c1)))
      else if l < 65536 then
        (case cw_pack_reserve_space lw hpo (unat (l + 4))
                (to_unsigned_long lw (uint l + 4)) c of
           Inl r \<Rightarrow> Inl r | Inr c1 \<Rightarrow> Inr (cw_store16 bo l (put_byte 0xc8 c1)))
      else
        (case cw_pack_reserve_space lw hpo (unat (l + 6))
                (to_unsigned_long lw (uint l + 6)) c of
           Inl r \<Rightarrow> Inl r | Inr c1 \<Rightarrow> Inr (cw_store32 bo l (put_byte 0xc9 c1))))"

definition cw_pack_ext ::
  "long_size \<Rightarrow> byte_order \<Rightarrow> pack_overflow_handler option \<Rightarrow> cw_pack_context \<Rightarrow> byte \<Rightarrow> addr \<Rightarrow> 32 word
     \<Rightarrow> cwp_rc \<times> cw_pack_context" where
  "cw_pack_ext lw bo hpo c type v l =
     (if return_code c \<noteq> CWP_RC_OK then (CWP_RC_STOPPED, c)
      else
        (case ext_header lw bo hpo c type v l of
           Inl r \<Rightarrow> r
         | Inr c1 \<Rightarrow> (CWP_RC_OK, copy_blob v l (put_byte type c1))))"

section \<open>Unpacking\<close>

text \<open>
  Modelled from the spec: the enumeration \<open>cwpack_item_types\<close> and the item record are
  declared in cwpack.h, which is not among the sources. Section 3 of the specification
  lists the type tags and says that an extension item carries its signed 8-bit user type
  in the \<open>type\<close> field: that is the constructor \<open>CWP_ITEM_USER_EXT\<close>, holding the byte.
\<close>

datatype cwpack_item_types =
    CWP_ITEM_NIL
  | CWP_ITEM_BOOLEAN
  | CWP_ITEM_POSITIVE_INTEGER
  | CWP_ITEM_NEGATIVE_INTEGER
  | CWP_ITEM_FLOAT
  | CWP_ITEM_DOUBLE
  | CWP_ITEM_STR
  | CWP_ITEM_BIN
  | CWP_ITEM_ARRAY
  | CWP_ITEM_MAP
  | CWP_ITEM_EXT
  | CWP_ITEM_USER_EXT byte

text \<open>
  The union \<open>as\<close> of the item, one field for each group of members that the code writes:
  \<^item> \<open>as_i64\<close>: the 64-bit slot shared by \<open>u64\<close>, \<open>i64\<close> and, when a double is loaded through
    \<open>cw_load64\<close>, \<open>real\<close> (the bit pattern of the double);
  \<^item> \<open>as_real_float\<close>: \<open>real\<close> when it is assigned from a float; the field keeps the bit
    pattern of that float (the widening to double is floating point and is not modelled);
  \<^item> \<open>as_size\<close>: \<open>array.size\<close> and \<open>map.size\<close>;
  \<^item> \<open>as_length\<close> and \<open>as_start\<close>: \<open>length\<close> and \<open>start\<close> of \<open>str\<close>, \<open>bin\<close> and \<open>ext\<close>.
  Only the members that belong to the item's type are meaningful after a call.
\<close>

record cwpack_item =
  type :: cwpack_item_types
  as_boolean :: bool
  as_i64 :: "64 word"
  as_real_float :: "32 word"
  as_size :: "32 word"
  as_length :: "32 word"
  as_start :: addr

record cw_unpack_context = cw_pack_context +
  item :: cwpack_item

type_synonym unpack_underflow_handler =
  "cw_unpack_context \<Rightarrow> nat \<Rightarrow> cwp_rc \<times> cw_unpack_context"

subsection \<open>The load macros\<close>

text \<open>
  \<open>cw_load16\<close> and \<open>cw_load32\<close> yield the local \<open>tmpu16\<close> or \<open>tmpu32\<close> and move \<open>current\<close>.
  Compiled for big endian they read one integer of the host; otherwise byte by byte.
\<close>

definition cw_load16 :: "byte_order \<Rightarrow> cw_unpack_context \<Rightarrow> 16 word \<times> cw_unpack_context" where
  "cw_load16 bo c =
     (case bo of
        COMPILE_FOR_BIG_ENDIAN \<Rightarrow>
          (be_word (load_bytes (mem c) (current c) 2), c\<lparr>current := current c + 2\<rparr>)
      | _ \<Rightarrow>
          (push_bit 8 (ucast (mem c (current c))) OR ucast (mem c (current c + 1)),
           c\<lparr>current := current c + 2\<rparr>))"

definition cw_load32 :: "byte_order \<Rightarrow> cw_unpack_context \<Rightarrow> 32 word \<times> cw_unpack_context" where
  "cw_load32 bo c =
     (case bo of
        COMPILE_FOR_BIG_ENDIAN \<Rightarrow>
          (be_word (load_bytes (mem c) (current c) 4), c\<lparr>current := current c + 4\<rparr>)
      | _ \<Rightarrow>
          (push_bit 24 (ucast (mem c (current c)))
             OR push_bit 16 (ucast (mem c (current c + 1)))
             OR push_bit 8 (ucast (mem c (current c + 2)))
             OR ucast (mem c (current c + 3)),
           c\<lparr>current := current c + 4\<rparr>))"

text \<open>
  \<open>cw_load64\<close> assigns \<open>item.as.u64\<close>. The big-endian variant reads eight bytes and adds 4
  to \<open>current\<close>, as written in the source; the little-endian variant reads one integer of
  the host and swaps it; the third reads byte by byte.
\<close>

definition cw_load64 :: "byte_order \<Rightarrow> cw_unpack_context \<Rightarrow> cw_unpack_context" where
  "cw_load64 bo c =
     (case bo of
        COMPILE_FOR_BIG_ENDIAN \<Rightarrow>
          c\<lparr>item := (item c)\<lparr>as_i64 := be_word (load_bytes (mem c) (current c) 8)\<rparr>,
            current := current c + 4\<rparr>
      | COMPILE_FOR_LITTLE_ENDIAN \<Rightarrow>
          c\<lparr>item := (item c)\<lparr>as_i64 := swap64 (le_word (load_bytes (mem c) (current c) 8))\<rparr>,
            current := current c + 8\<rparr>
      | BYTE_ORDER_UNDETERMINED \<Rightarrow>
          c\<lparr>item := (item c)\<lparr>as_i64 :=
                push_bit 56 (ucast (mem c (current c)))
                  OR push_bit 48 (ucast (mem c (current c + 1)))
                  OR push_bit 40 (ucast (mem c (current c + 2)))
                  OR push_bit 32 (ucast (mem c (current c + 3)))
                  OR push_bit 24 (ucast (mem c (current c + 4)))
                  OR push_bit 16 (ucast (mem c (current c + 5)))
                  OR push_bit 8 (ucast (mem c (current c + 6)))
                  OR ucast (mem c (current c + 7))\<rparr>,
            current := current c + 8\<rparr>)"

subsection \<open>Demanding bytes\<close>

text \<open>
  \<open>cw_unpack_assert_space(more)\<close>, with the local \<open>buffer_end_return_code\<close> as an argument.
  \<open>Inl\<close> is the macro's \<open>return\<close>. \<open>n\<close> is the value of the argument in its own type, \<open>int\<close>
  or \<open>uint32_t\<close>. The test adds \<open>(long)(more)\<close> to \<open>current\<close>: where \<open>long\<close> has 32 bits, a
  \<open>uint32_t\<close> of \<open>2 ^ 31\<close> or more becomes negative. The handler receives
  \<open>(unsigned long)(more)\<close>.
\<close>

definition cw_unpack_assert_space ::
  "long_size \<Rightarrow> unpack_underflow_handler option \<Rightarrow> cwp_rc \<Rightarrow> nat \<Rightarrow> cw_unpack_context
     \<Rightarrow> (cwp_rc \<times> cw_unpack_context) + cw_unpack_context" where
  "cw_unpack_assert_space lw huu buffer_end_return_code n c =
     (if int (current c) + to_long lw (int n) > int (endp c) then
        (case huu of
           None \<Rightarrow> Inl (buffer_end_return_code, c\<lparr>return_code := buffer_end_return_code\<rparr>)
         | Some h \<Rightarrow>
             (case h c (to_unsigned_long lw (int n)) of (rc, c') \<Rightarrow>
                if rc \<noteq> CWP_RC_OK then
                  (let c'' = c'\<lparr>return_code :=
                        (if rc \<noteq> CWP_RC_END_OF_INPUT then rc else buffer_end_return_code)\<rparr>
                   in Inl (return_code c'', c''))
                else Inr c'))
      else Inr c)"

text \<open>Sequencing of steps that may return early.\<close>

definition and_then :: "'e + 'a \<Rightarrow> ('a \<Rightarrow> 'e + 'b) \<Rightarrow> 'e + 'b" where
  "and_then r f = (case r of Inl e \<Rightarrow> Inl e | Inr x \<Rightarrow> f x)"

subsection \<open>The item macros\<close>

definition set_type :: "cwpack_item_types \<Rightarrow> cw_unpack_context \<Rightarrow> cw_unpack_context" where
  "set_type t c = c\<lparr>item := (item c)\<lparr>type := t\<rparr>\<rparr>"

definition set_boolean :: "bool \<Rightarrow> cw_unpack_context \<Rightarrow> cw_unpack_context" where
  "set_boolean b c = c\<lparr>item := (item c)\<lparr>as_boolean := b\<rparr>\<rparr>"

definition set_i64 :: "64 word \<Rightarrow> cw_unpack_context \<Rightarrow> cw_unpack_context" where
  "set_i64 v c = c\<lparr>item := (item c)\<lparr>as_i64 := v\<rparr>\<rparr>"

definition set_size :: "32 word \<Rightarrow> cw_unpack_context \<Rightarrow> cw_unpack_context" where
  "set_size v c = c\<lparr>item := (item c)\<lparr>as_size := v\<rparr>\<rparr>"

definition set_length :: "32 word \<Rightarrow> cw_unpack_context \<Rightarrow> cw_unpack_context" where
  "set_length v c = c\<lparr>item := (item c)\<lparr>as_length := v\<rparr>\<rparr>"

text \<open>\<open>*unpack_context->current++\<close>\<close>

definition get_byte :: "cw_unpack_context \<Rightarrow> byte \<times> cw_unpack_context" where
  "get_byte c = (mem c (current c), c\<lparr>current := current c + 1\<rparr>)"

text \<open>
  \<open>getDDItem1\<close>, \<open>getDDItem2\<close>, \<open>getDDItem4\<close>: set the type, demand the bytes, load them and
  assign the member \<open>var\<close> (the argument \<open>var\<close> is the assignment, cast included).
\<close>

definition getDDItem1 ::
  "long_size \<Rightarrow> unpack_underflow_handler option \<Rightarrow> cwpack_item_types
     \<Rightarrow> (byte \<Rightarrow> cw_unpack_context \<Rightarrow> cw_unpack_context) \<Rightarrow> cw_unpack_context
     \<Rightarrow> (cwp_rc \<times> cw_unpack_context) + cw_unpack_context" where
  "getDDItem1 lw huu typ var c =
     and_then (cw_unpack_assert_space lw huu CWP_RC_BUFFER_UNDERFLOW 1 (set_type typ c))
       (\<lambda>c1. case get_byte c1 of (b, c2) \<Rightarrow> Inr (var b c2))"

definition getDDItem2 ::
  "long_size \<Rightarrow> byte_order \<Rightarrow> unpack_underflow_handler option \<Rightarrow> cwpack_item_types
     \<Rightarrow> (16 word \<Rightarrow> cw_unpack_context \<Rightarrow> cw_unpack_context) \<Rightarrow> cw_unpack_context
     \<Rightarrow> (cwp_rc \<times> cw_unpack_context) + cw_unpack_context" where
  "getDDItem2 lw bo huu typ var c =
     and_then (cw_unpack_assert_space lw huu CWP_RC_BUFFER_UNDERFLOW 2 (set_type typ c))
       (\<lambda>c1. case cw_load16 bo c1 of (tmpu16, c2) \<Rightarrow> Inr (var tmpu16 c2))"

definition getDDItem4 ::
  "long_size \<Rightarrow> byte_order \<Rightarrow> unpack_underflow_handler option \<Rightarrow> cwpack_item_types
     \<Rightarrow> (32 word \<Rightarrow> cw_unpack_context \<Rightarrow> cw_unpack_context) \<Rightarrow> cw_unpack_context
     \<Rightarrow> (cwp_rc \<times> cw_unpack_context) + cw_unpack_context" where
  "getDDItem4 lw bo huu typ var c =
     and_then (cw_unpack_assert_space lw huu CWP_RC_BUFFER_UNDERFLOW 4 (set_type typ c))
       (\<lambda>c1. case cw_load32 bo c1 of (tmpu32, c2) \<Rightarrow> Inr (var tmpu32 c2))"

definition getDDItem8 ::
  "long_size \<Rightarrow> byte_order \<Rightarrow> unpack_underflow_handler option \<Rightarrow> cwpack_item_types \<Rightarrow> cw_unpack_context
     \<Rightarrow> (cwp_rc \<times> cw_unpack_context) + cw_unpack_context" where
  "getDDItem8 lw bo huu typ c =
     and_then (cw_unpack_assert_space lw huu CWP_RC_BUFFER_UNDERFLOW 8 (set_type typ c))
       (\<lambda>c1. Inr (cw_load64 bo c1))"

text \<open>
  \<open>cw_unpack_assert_blob\<close>: demand \<open>length\<close> bytes, let \<open>start\<close> point at them and step over
  them.
\<close>

definition cw_unpack_assert_blob ::
  "long_size \<Rightarrow> unpack_underflow_handler option \<Rightarrow> cw_unpack_context
     \<Rightarrow> (cwp_rc \<times> cw_unpack_context) + cw_unpack_context" where
  "cw_unpack_assert_blob lw huu c =
     and_then
       (cw_unpack_assert_space lw huu CWP_RC_BUFFER_UNDERFLOW (unat (as_length (item c))) c)
       (\<lambda>c1. Inr (c1\<lparr>item := (item c1)\<lparr>as_start := current c1\<rparr>,
                     current := current c1 + unat (as_length (item c1))\<rparr>))"

text \<open>The type byte of an extension, read as \<open>int8_t\<close> and assigned to \<open>item.type\<close>.\<close>

definition get_ext_type ::
  "long_size \<Rightarrow> unpack_underflow_handler option \<Rightarrow> cw_unpack_context
     \<Rightarrow> (cwp_rc \<times> cw_unpack_context) + cw_unpack_context" where
  "get_ext_type lw huu c =
     and_then (cw_unpack_assert_space lw huu CWP_RC_BUFFER_UNDERFLOW 1 c)
       (\<lambda>c1. case get_byte c1 of (b, c2) \<Rightarrow> Inr (set_type (CWP_ITEM_USER_EXT b) c2))"

definition getDDItemFix ::
  "long_size \<Rightarrow> unpack_underflow_handler option \<Rightarrow> 32 word \<Rightarrow> cw_unpack_context
     \<Rightarrow> (cwp_rc \<times> cw_unpack_context) + cw_unpack_context" where
  "getDDItemFix lw huu len c =
     and_then (get_ext_type lw huu c) (\<lambda>c1. cw_unpack_assert_blob lw huu (set_length len c1))"

text \<open>The rewrite of the type after a signed load: \<open>if (item.as.i64 >= 0) ...\<close>.\<close>

definition positive_if_not_negative :: "cw_unpack_context \<Rightarrow> cw_unpack_context" where
  "positive_if_not_negative c =
     (if 0 \<le> sint (as_i64 (item c)) then set_type CWP_ITEM_POSITIVE_INTEGER c else c)"

definition set_real_float :: "32 word \<Rightarrow> cw_unpack_context \<Rightarrow> cw_unpack_context" where
  "set_real_float v c = c\<lparr>item := (item c)\<lparr>as_real_float := v\<rparr>\<rparr>"

subsection \<open>cw_unpack_next\<close>

text \<open>
  \<open>unpack_item\<close> is the \<open>switch (c)\<close> of \<open>cw_unpack_next\<close>, its cases in the order of the
  source, the runs of case labels written as ranges. \<open>Inr\<close> is \<open>break\<close>. (Case \<open>0xca\<close> is
  written out in the source; its statements are those of \<open>getDDItem4\<close>.)
\<close>

definition unpack_item ::
  "long_size \<Rightarrow> byte_order \<Rightarrow> unpack_underflow_handler option \<Rightarrow> byte \<Rightarrow> cw_unpack_context
     \<Rightarrow> (cwp_rc \<times> cw_unpack_context) + cw_unpack_context" where
  "unpack_item lw bo huu c u =
     (if c \<le> 0x7f then Inr (set_i64 (ucast c) (set_type CWP_ITEM_POSITIVE_INTEGER u))
      else if 0x80 \<le> c \<and> c \<le> 0x8f then
        Inr (set_size (ucast (c AND 0x0f)) (set_type CWP_ITEM_MAP u))
      else if 0x90 \<le> c \<and> c \<le> 0x9f then
        Inr (set_size (ucast (c AND 0x0f)) (set_type CWP_ITEM_ARRAY u))
      else if 0xa0 \<le> c \<and> c \<le> 0xbf then
        cw_unpack_assert_blob lw huu (set_length (ucast (c AND 0x1f)) (set_type CWP_ITEM_STR u))
      else if c = 0xc0 then Inr (set_type CWP_ITEM_NIL u)
      else if c = 0xc2 then Inr (set_boolean False (set_type CWP_ITEM_BOOLEAN u))
      else if c = 0xc3 then Inr (set_boolean True (set_type CWP_ITEM_BOOLEAN u))
      else if c = 0xc4 then
        and_then (getDDItem1 lw huu CWP_ITEM_BIN (\<lambda>b. set_length (ucast b)) u)
          (cw_unpack_assert_blob lw huu)
      else if c = 0xc5 then
        and_then (getDDItem2 lw bo huu CWP_ITEM_BIN (\<lambda>w. set_length (ucast w)) u)
          (cw_unpack_assert_blob lw huu)
      else if c = 0xc6 then
        and_then (getDDItem4 lw bo huu CWP_ITEM_BIN (\<lambda>w. set_length w) u)
          (cw_unpack_assert_blob lw huu)
      else if c = 0xc7 then
        and_then (getDDItem1 lw huu CWP_ITEM_EXT (\<lambda>b. set_length (ucast b)) u)
          (\<lambda>u1. and_then (get_ext_type lw huu u1) (cw_unpack_assert_blob lw huu))
      else if c = 0xc8 then
        and_then (getDDItem2 lw bo huu CWP_ITEM_EXT (\<lambda>w. set_length (ucast w)) u)
          (\<lambda>u1. and_then (get_ext_type lw huu u1) (cw_unpack_assert_blob lw huu))
      else if c = 0xc9 then
        and_then (getDDItem4 lw bo huu CWP_ITEM_EXT (\<lambda>w. set_length w) u)
          (\<lambda>u1. and_then (get_ext_type lw huu u1) (cw_unpack_assert_blob lw huu))
      else if c = 0xca then getDDItem4 lw bo huu CWP_ITEM_FLOAT set_real_float u
      else if c = 0xcb then getDDItem8 lw bo huu CWP_ITEM_DOUBLE u
      else if c = 0xcc then
        getDDItem1 lw huu CWP_ITEM_POSITIVE_INTEGER (\<lambda>b. set_i64 (ucast b)) u
      else if c = 0xcd then
        getDDItem2 lw bo huu CWP_ITEM_POSITIVE_INTEGER (\<lambda>w. set_i64 (ucast w)) u
      else if c = 0xce then
        getDDItem4 lw bo huu CWP_ITEM_POSITIVE_INTEGER (\<lambda>w. set_i64 (ucast w)) u
      else if c = 0xcf then getDDItem8 lw bo huu CWP_ITEM_POSITIVE_INTEGER u
      else if c = 0xd0 then
        and_then (getDDItem1 lw huu CWP_ITEM_NEGATIVE_INTEGER (\<lambda>b. set_i64 (scast b)) u)
          (\<lambda>u1. Inr (positive_if_not_negative u1))
      else if c = 0xd1 then
        and_then (getDDItem2 lw bo huu CWP_ITEM_NEGATIVE_INTEGER (\<lambda>w. set_i64 (scast w)) u)
          (\<lambda>u1. Inr (positive_if_not_negative u1))
      else if c = 0xd2 then
        and_then (getDDItem4 lw bo huu CWP_ITEM_NEGATIVE_INTEGER (\<lambda>w. set_i64 (scast w)) u)
          (\<lambda>u1. Inr (positive_if_not_negative u1))
      else if c = 0xd3 then
        and_then (getDDItem8 lw bo huu CWP_ITEM_NEGATIVE_INTEGER u)
          (\<lambda>u1. Inr (positive_if_not_negative u1))
      else if c = 0xd4 then getDDItemFix lw huu 1 u
      else if c = 0xd5 then getDDItemFix lw huu 2 u
      else if c = 0xd6 then getDDItemFix lw huu 4 u
      else if c = 0xd7 then getDDItemFix lw huu 8 u
      else if c = 0xd8 then getDDItemFix lw huu 16 u
      else if c = 0xd9 then
        and_then (getDDItem1 lw huu CWP_ITEM_STR (\<lambda>b. set_length (ucast b)) u)
          (cw_unpack_assert_blob lw huu)
      else if c = 0xda then
        and_then (getDDItem2 lw bo huu CWP_ITEM_STR (\<lambda>w. set_length (ucast w)) u)
          (cw_unpack_assert_blob lw huu)
      else if c = 0xdb then
        and_then (getDDItem4 lw bo huu CWP_ITEM_STR (\<lambda>w. set_length w) u)
          (cw_unpack_assert_blob lw huu)
      else if c = 0xdc then getDDItem2 lw bo huu CWP_ITEM_ARRAY (\<lambda>w. set_size (ucast w)) u
      else if c = 0xdd then getDDItem4 lw bo huu CWP_ITEM_ARRAY (\<lambda>w. set_size w) u
      else if c = 0xde then getDDItem2 lw bo huu CWP_ITEM_MAP (\<lambda>w. set_size (ucast w)) u
      else if c = 0xdf then getDDItem4 lw bo huu CWP_ITEM_MAP (\<lambda>w. set_size w) u
      else if 0xe0 \<le> c then
        Inr (set_i64 (scast c) (set_type CWP_ITEM_NEGATIVE_INTEGER u))
      else Inl (CWP_RC_MALFORMED_INPUT, u\<lparr>return_code := CWP_RC_MALFORMED_INPUT\<rparr>))"

definition cw_unpack_next ::
  "long_size \<Rightarrow> byte_order \<Rightarrow> unpack_underflow_handler option \<Rightarrow> cw_unpack_context
     \<Rightarrow> cwp_rc \<times> cw_unpack_context" where
  "cw_unpack_next lw bo huu u =
     (if return_code u \<noteq> CWP_RC_OK then (CWP_RC_STOPPED, u)
      else
        (case cw_unpack_assert_space lw huu CWP_RC_END_OF_INPUT 1 u of
           Inl r \<Rightarrow> r
         | Inr u1 \<Rightarrow>
             (case get_byte u1 of (c, u2) \<Rightarrow>
                (case unpack_item lw bo huu c u2 of
                   Inl r \<Rightarrow> r
                 | Inr u3 \<Rightarrow> (CWP_RC_OK, u3)))))"

subsection \<open>cw_skip_items\<close>

text \<open>\<open>cw_skip_bytes(n)\<close>\<close>

definition cw_skip_bytes ::
  "long_size \<Rightarrow> unpack_underflow_handler option \<Rightarrow> nat \<Rightarrow> cw_unpack_context
     \<Rightarrow> (cwp_rc \<times> cw_unpack_context) + cw_unpack_context" where
  "cw_skip_bytes lw huu n u =
     and_then (cw_unpack_assert_space lw huu CWP_RC_BUFFER_UNDERFLOW n u)
       (\<lambda>u1. Inr (u1\<lparr>current := current u1 + n\<rparr>))"

definition skip_load8 ::
  "long_size \<Rightarrow> unpack_underflow_handler option \<Rightarrow> cw_unpack_context
     \<Rightarrow> (cwp_rc \<times> cw_unpack_context) + (32 word \<times> cw_unpack_context)" where
  "skip_load8 lw huu u =
     and_then (cw_unpack_assert_space lw huu CWP_RC_BUFFER_UNDERFLOW 1 u)
       (\<lambda>u1. case get_byte u1 of (b, u2) \<Rightarrow> Inr (ucast b, u2))"

definition skip_load16 ::
  "long_size \<Rightarrow> byte_order \<Rightarrow> unpack_underflow_handler option \<Rightarrow> cw_unpack_context
     \<Rightarrow> (cwp_rc \<times> cw_unpack_context) + (16 word \<times> cw_unpack_context)" where
  "skip_load16 lw bo huu u =
     and_then (cw_unpack_assert_space lw huu CWP_RC_BUFFER_UNDERFLOW 2 u)
       (\<lambda>u1. Inr (cw_load16 bo u1))"

definition skip_load32 ::
  "long_size \<Rightarrow> byte_order \<Rightarrow> unpack_underflow_handler option \<Rightarrow> cw_unpack_context
     \<Rightarrow> (cwp_rc \<times> cw_unpack_context) + (32 word \<times> cw_unpack_context)" where
  "skip_load32 lw bo huu u =
     and_then (cw_unpack_assert_space lw huu CWP_RC_BUFFER_UNDERFLOW 4 u)
       (\<lambda>u1. Inr (cw_load32 bo u1))"

text \<open>
  \<open>item_count\<close> is a \<open>long\<close>. \<open>item_count += w\<close> with a \<open>uint32_t\<close> operand: where \<open>long\<close> has 64
  bits the operand is widened and the sum is signed; where it has 32 bits both are
  converted to \<open>unsigned long\<close>, added modulo \<open>2 ^ 32\<close>, and the sum is converted back.
  Signed sums that leave the range of \<open>long\<close> are undefined in C; they are unbounded
  integers here.
\<close>

definition add_unsigned :: "long_size \<Rightarrow> int \<Rightarrow> 32 word \<Rightarrow> int" where
  "add_unsigned lw item_count w =
     (case lw of
        LONG_64 \<Rightarrow> item_count + uint w
      | LONG_32 \<Rightarrow> to_long LONG_32 (item_count + uint w))"

text \<open>
  \<open>skip_item\<close> is the \<open>switch (c)\<close> inside the loop of \<open>cw_skip_items\<close>, in the order of the
  source. It yields the context and the new value of \<open>item_count\<close>. The operand types are
  those of C: \<open>2*(c & 15)\<close>, \<open>2*tmpu16\<close> and \<open>tmpu16 + 1\<close> are computed in \<open>int\<close>, \<open>2*tmpu32\<close> and
  \<open>tmpu32 + 1\<close> in \<open>uint32_t\<close>, where they wrap around.
\<close>

definition skip_item ::
  "long_size \<Rightarrow> byte_order \<Rightarrow> unpack_underflow_handler option \<Rightarrow> byte \<Rightarrow> cw_unpack_context
     \<Rightarrow> int \<Rightarrow> (cwp_rc \<times> cw_unpack_context) + (cw_unpack_context \<times> int)" where
  "skip_item lw bo huu c u item_count =
     (let bytes = (\<lambda>n u'. and_then (cw_skip_bytes lw huu n u') (\<lambda>u1. Inr (u1, item_count)))
      in
      if c \<le> 0x7f \<or> 0xe0 \<le> c \<or> c = 0xc0 \<or> c = 0xc2 \<or> c = 0xc3 then
        Inr (u, item_count)
      else if c = 0xcc \<or> c = 0xd0 then bytes 1 u
      else if c = 0xcd \<or> c = 0xd1 \<or> c = 0xd4 then bytes 2 u
      else if c = 0xd5 then bytes 3 u
      else if c = 0xca \<or> c = 0xce \<or> c = 0xd2 then bytes 4 u
      else if c = 0xd6 then bytes 5 u
      else if c = 0xcb \<or> c = 0xcf \<or> c = 0xd3 then bytes 8 u
      else if c = 0xd7 then bytes 9 u
      else if c = 0xd8 then bytes 17 u
      else if 0xa0 \<le> c \<and> c \<le> 0xbf then bytes (unat (c AND 0x1f)) u
      else if c = 0xd9 \<or> c = 0xc4 then
        and_then (skip_load8 lw huu u) (\<lambda>(tmpu32, u1). bytes (unat tmpu32) u1)
      else if c = 0xda \<or> c = 0xc5 then
        and_then (skip_load16 lw bo huu u) (\<lambda>(tmpu16, u1). bytes (unat tmpu16) u1)
      else if c = 0xdb \<or> c = 0xc6 then
        and_then (skip_load32 lw bo huu u) (\<lambda>(tmpu32, u1). bytes (unat tmpu32) u1)
      else if 0x80 \<le> c \<and> c \<le> 0x8f then
        Inr (u, item_count + 2 * uint (c AND 15))
      else if 0x90 \<le> c \<and> c \<le> 0x9f then
        Inr (u, item_count + uint (c AND 15))
      else if c = 0xdc then
        and_then (skip_load16 lw bo huu u) (\<lambda>(tmpu16, u1). Inr (u1, item_count + uint tmpu16))
      else if c = 0xde then
        and_then (skip_load16 lw bo huu u)
          (\<lambda>(tmpu16, u1). Inr (u1, item_count + 2 * uint tmpu16))
      else if c = 0xdd then
        and_then (skip_load32 lw bo huu u)
          (\<lambda>(tmpu32, u1). Inr (u1, add_unsigned lw item_count tmpu32))
      else if c = 0xdf then
        and_then (skip_load32 lw bo huu u)
          (\<lambda>(tmpu32, u1). Inr (u1, add_unsigned lw item_count (2 * tmpu32)))
      else if c = 0xc7 then
        and_then (skip_load8 lw huu u) (\<lambda>(tmpu32, u1). bytes (unat (tmpu32 + 1)) u1)
      else if c = 0xc8 then
        and_then (skip_load16 lw bo huu u) (\<lambda>(tmpu16, u1). bytes (unat tmpu16 + 1) u1)
      else if c = 0xc9 then
        and_then (skip_load32 lw bo huu u) (\<lambda>(tmpu32, u1). bytes (unat (tmpu32 + 1)) u1)
      else Inl (CWP_RC_MALFORMED_INPUT, u\<lparr>return_code := CWP_RC_MALFORMED_INPUT\<rparr>))"

text \<open>
  The loop \<open>while (item_count-- > 0)\<close>: the switch runs with the decremented count. With a
  handler that keeps supplying composite headers the loop need not end, so the function
  is partial: \<open>None\<close> is a run that never returns.
\<close>

partial_function (option) cw_skip_loop ::
  "long_size \<Rightarrow> byte_order \<Rightarrow> unpack_underflow_handler option \<Rightarrow> cw_unpack_context \<Rightarrow> int
     \<Rightarrow> (cwp_rc \<times> cw_unpack_context) option" where
  "cw_skip_loop lw bo huu u item_count =
     (if item_count > 0 then
        (case cw_unpack_assert_space lw huu CWP_RC_END_OF_INPUT 1 u of
           Inl r \<Rightarrow> Some r
         | Inr u1 \<Rightarrow>
             (case get_byte u1 of (c, u2) \<Rightarrow>
                (case skip_item lw bo huu c u2 (item_count - 1) of
                   Inl r \<Rightarrow> Some r
                 | Inr (u3, n) \<Rightarrow> cw_skip_loop lw bo huu u3 n)))
      else Some (CWP_RC_OK, u))"

definition cw_skip_items ::
  "long_size \<Rightarrow> byte_order \<Rightarrow> unpack_underflow_handler option \<Rightarrow> cw_unpack_context \<Rightarrow> int
     \<Rightarrow> (cwp_rc \<times> cw_unpack_context) option" where
  "cw_skip_items lw bo huu u item_count =
     (if return_code u \<noteq> CWP_RC_OK then Some (CWP_RC_STOPPED, u)
      else cw_skip_loop lw bo huu u item_count)"

section \<open>Initialisation\<close>

text \<open>
  \<open>test_byte_order\<close> reads the string "1234" as one 32-bit integer of the host.
  \<open>host_big\<close> says whether the host stores integers most significant byte first.
\<close>

definition test_byte_order :: "byte_order \<Rightarrow> bool \<Rightarrow> cwp_rc" where
  "test_byte_order bo host_big =
     (let endianness = [0x31, 0x32, 0x33, 0x34];
          host_value = (if host_big then be_word endianness else le_word endianness) :: 32 word
      in case bo of
           COMPILE_FOR_BIG_ENDIAN \<Rightarrow>
             if host_value \<noteq> 0x31323334 then CWP_RC_WRONG_BYTE_ORDER else CWP_RC_OK
         | COMPILE_FOR_LITTLE_ENDIAN \<Rightarrow>
             if host_value \<noteq> 0x34333231 then CWP_RC_WRONG_BYTE_ORDER else CWP_RC_OK
         | BYTE_ORDER_UNDETERMINED \<Rightarrow> CWP_RC_OK)"

definition cw_pack_context_init ::
  "byte_order \<Rightarrow> bool \<Rightarrow> cw_pack_context \<Rightarrow> addr \<Rightarrow> nat \<Rightarrow> cwp_rc \<times> cw_pack_context" where
  "cw_pack_context_init bo host_big c data len =
     (let c1 = c\<lparr>return_code := test_byte_order bo host_big\<rparr>
      in if return_code c1 \<noteq> CWP_RC_OK then (return_code c1, c1)
         else (CWP_RC_OK,
               c1\<lparr>start := data, current := data, endp := data + len,
                  return_code := CWP_RC_OK, errno := 0\<rparr>))"

definition cw_unpack_context_init ::
  "byte_order \<Rightarrow> bool \<Rightarrow> cw_unpack_context \<Rightarrow> addr \<Rightarrow> nat \<Rightarrow> cwp_rc \<times> cw_unpack_context" where
  "cw_unpack_context_init bo host_big u data len =
     (let u1 = u\<lparr>return_code := test_byte_order bo host_big\<rparr>
      in if return_code u1 \<noteq> CWP_RC_OK then (return_code u1, u1)
         else (CWP_RC_OK,
               u1\<lparr>start := data, current := data, endp := data + len,
                  return_code := CWP_RC_OK, errno := 0\<rparr>))"

section \<open>Contexts used as examples\<close>

text \<open>
  \<open>packer m a n\<close> is a pack context as \<open>cw_pack_context_init\<close> leaves it around the \<open>n\<close> bytes
  at address \<open>a\<close> of memory \<open>m\<close>; \<open>unpacker m a n\<close> likewise for unpacking.
\<close>

definition packer :: "memory \<Rightarrow> addr \<Rightarrow> nat \<Rightarrow> cw_pack_context" where
  "packer m a n =
     \<lparr>mem = m, start = a, current = a, endp = a + n, return_code = CWP_RC_OK, errno = 0\<rparr>"

definition blank_item :: cwpack_item where
  "blank_item =
     \<lparr>type = CWP_ITEM_NIL, as_boolean = False, as_i64 = 0, as_real_float = 0, as_size = 0,
      as_length = 0, as_start = 0\<rparr>"

definition unpacker :: "memory \<Rightarrow> addr \<Rightarrow> nat \<Rightarrow> cw_unpack_context" where
  "unpacker m a n =
     \<lparr>mem = m, start = a, current = a, endp = a + n, return_code = CWP_RC_OK, errno = 0,
      item = blank_item\<rparr>"

text \<open>A memory that holds the bytes \<open>bs\<close> from address 0 on and zero elsewhere.\<close>

definition memory_of :: "byte list \<Rightarrow> memory" where
  "memory_of bs = store_bytes (\<lambda>_. 0) 0 bs"

section \<open>The wire format, for stating the properties\<close>

text \<open>
  \<open>emit bs c\<close>: the pack context \<open>c\<close> after the bytes \<open>bs\<close> have been written at \<open>current\<close>.
\<close>

definition emit :: "byte list \<Rightarrow> cw_pack_context \<Rightarrow> cw_pack_context" where
  "emit bs c = c\<lparr>mem := store_bytes (mem c) (current c) bs, current := current c + length bs\<rparr>"

text \<open>
  The decision ladders for integers as section 4.2 of the specification words them
  (tag byte, then the value most significant byte first). They are the statement that the
  code is compared with, not a model of the code.
\<close>

definition spec_unsigned_encoding :: "64 word \<Rightarrow> byte list" where
  "spec_unsigned_encoding v =
     (if v < 128 then [ucast v]
      else if v < 2 ^ 8 then [0xcc, ucast v]
      else if v < 2 ^ 16 then 0xcd # be_bytes 2 v
      else if v < 2 ^ 32 then 0xce # be_bytes 4 v
      else 0xcf # be_bytes 8 v)"

definition spec_signed_encoding :: "64 word \<Rightarrow> byte list" where
  "spec_signed_encoding v =
     (if 0 \<le> sint v then spec_unsigned_encoding v
      else if - 32 \<le> sint v then [ucast v]
      else if - 128 \<le> sint v then [0xd0, ucast v]
      else if - 32768 \<le> sint v then 0xd1 # be_bytes 2 v
      else if - (2 ^ 31) \<le> sint v then 0xd2 # be_bytes 4 v
      else 0xd3 # be_bytes 8 v)"

text \<open>
  \<open>wire_length m a\<close>: the number of bytes that the MessagePack item with its prefix byte at
  address \<open>a\<close> occupies: prefix, length field, extension type and payload. For an array or
  map header it is the length of the header alone.
\<close>

definition wire_length :: "memory \<Rightarrow> addr \<Rightarrow> nat" where
  "wire_length m a =
     (let c = m a;
          len8 = unat (m (a + 1));
          len16 = unat (be_word [m (a + 1), m (a + 2)] :: 16 word);
          len32 = unat (be_word [m (a + 1), m (a + 2), m (a + 3), m (a + 4)] :: 32 word)
      in
      if 0xa0 \<le> c \<and> c \<le> 0xbf then 1 + unat (c AND 0x1f)
      else if c = 0xc4 \<or> c = 0xd9 then 2 + len8
      else if c = 0xc5 \<or> c = 0xda then 3 + len16
      else if c = 0xc6 \<or> c = 0xdb then 5 + len32
      else if c = 0xc7 then 3 + len8
      else if c = 0xc8 then 4 + len16
      else if c = 0xc9 then 6 + len32
      else if c = 0xcc \<or> c = 0xd0 then 2
      else if c = 0xcd \<or> c = 0xd1 \<or> c = 0xdc \<or> c = 0xde then 3
      else if c = 0xca \<or> c = 0xce \<or> c = 0xd2 \<or> c = 0xdd \<or> c = 0xdf then 5
      else if c = 0xcb \<or> c = 0xcf \<or> c = 0xd3 then 9
      else if c = 0xd4 then 3
      else if c = 0xd5 then 4
      else if c = 0xd6 then 6
      else if c = 0xd7 then 10
      else if c = 0xd8 then 18
      else 1)"

text \<open>
  Legal streams. A prefix byte is that of a scalar item (anything but a composite header
  and the reserved \<open>0xc1\<close>), of an array header with its element count, or of a map header
  with its pair count.
\<close>

definition scalar_prefix :: "byte \<Rightarrow> bool" where
  "scalar_prefix c \<longleftrightarrow>
     c \<le> 0x7f \<or> (0xa0 \<le> c \<and> c \<le> 0xc0) \<or> (0xc2 \<le> c \<and> c \<le> 0xdb) \<or> 0xe0 \<le> c"

definition array_count :: "memory \<Rightarrow> addr \<Rightarrow> nat option" where
  "array_count m a =
     (if 0x90 \<le> m a \<and> m a \<le> 0x9f then Some (unat (m a AND 0x0f))
      else if m a = 0xdc then Some (unat (be_word (load_bytes m (a + 1) 2) :: 16 word))
      else if m a = 0xdd then Some (unat (be_word (load_bytes m (a + 1) 4) :: 32 word))
      else None)"

definition map_count :: "memory \<Rightarrow> addr \<Rightarrow> nat option" where
  "map_count m a =
     (if 0x80 \<le> m a \<and> m a \<le> 0x8f then Some (unat (m a AND 0x0f))
      else if m a = 0xde then Some (unat (be_word (load_bytes m (a + 1) 2) :: 16 word))
      else if m a = 0xdf then Some (unat (be_word (load_bytes m (a + 1) 4) :: 32 word))
      else None)"

text \<open>
  \<open>item_at m a b\<close>: one complete item, with everything nested in it, occupies the addresses
  from \<open>a\<close> up to \<open>b\<close>. \<open>items_at m a k b\<close>: \<open>k\<close> complete items in a row occupy them. An array
  of \<open>n\<close> elements is its header and \<open>n\<close> items; a map of \<open>n\<close> pairs is its header and \<open>2 * n\<close>
  items.
\<close>

inductive item_at :: "memory \<Rightarrow> addr \<Rightarrow> addr \<Rightarrow> bool"
  and items_at :: "memory \<Rightarrow> addr \<Rightarrow> nat \<Rightarrow> addr \<Rightarrow> bool"
  for m :: memory where
    scalar: "scalar_prefix (m a) \<Longrightarrow> item_at m a (a + wire_length m a)"
  | array: "array_count m a = Some n \<Longrightarrow> items_at m (a + wire_length m a) n b \<Longrightarrow> item_at m a b"
  | map: "map_count m a = Some n \<Longrightarrow> items_at m (a + wire_length m a) (2 * n) b \<Longrightarrow> item_at m a b"
  | none: "items_at m a 0 a"
  | more: "item_at m a b \<Longrightarrow> items_at m b k e \<Longrightarrow> items_at m a (Suc k) e"

text \<open>
  A memory that holds a map 32 header announcing \<open>2 ^ 31\<close> pairs, followed by nil items
  only.
\<close>

definition wide_map_memory :: memory where
  "wide_map_memory = store_bytes (\<lambda>_. 0xc0) 0 [0xdf, 0x80, 0x00, 0x00, 0x00]"

section \<open>Properties\<close>

subsection \<open>Auxiliary facts\<close>

lemma store_bytes_Nil [simp]: "store_bytes m a [] = m"
  by (auto simp: store_bytes_def fun_eq_iff)

lemma store_bytes_Cons: "store_bytes m a (b # bs) = store_bytes (m(a := b)) (Suc a) bs"
  by (auto simp: store_bytes_def fun_eq_iff nth_Cons' Suc_le_eq)

lemma store_bytes_append:
  "store_bytes (store_bytes m a xs) (a + length xs) ys = store_bytes m a (xs @ ys)"
  by (auto simp: store_bytes_def fun_eq_iff nth_append)

lemma emit_Nil [simp]: "emit [] c = c"
  by (simp add: emit_def)

lemma emit_emit: "emit ys (emit xs c) = emit (xs @ ys) c"
  by (simp add: emit_def store_bytes_append add.assoc)

lemma put_byte_emit: "put_byte b c = emit [b] c"
  by (simp add: put_byte_def emit_def store_bytes_Cons)

lemma be_bytes_2: "be_bytes 2 x = [ucast (drop_bit 8 x), ucast x]"
  by (simp add: numeral_2_eq_2)

lemma be_bytes_4: "be_bytes 4 x = [ucast (drop_bit 24 x), ucast (drop_bit 16 x), ucast (drop_bit 8 x), ucast x]"
  by (simp add: eval_nat_numeral)

lemma be_bytes_8: "be_bytes 8 x = [ucast (drop_bit 56 x), ucast (drop_bit 48 x), ucast (drop_bit 40 x), ucast (drop_bit 32 x), ucast (drop_bit 24 x), ucast (drop_bit 16 x), ucast (drop_bit 8 x), ucast x]"
  by (simp add: eval_nat_numeral)

lemma masks32:
  "(0x00ff0000 :: 32 word) = push_bit 16 (mask 8)"
  "(0x0000ff00 :: 32 word) = push_bit 8 (mask 8)"
  by (simp_all add: mask_eq_exp_minus_1)

lemma masks64:
  "(0x0000ff000000ff00 :: 64 word) = push_bit 40 (mask 8) OR push_bit 8 (mask 8)"
  "(0x00ff000000ff0000 :: 64 word) = push_bit 48 (mask 8) OR push_bit 16 (mask 8)"
  "(0x000000ff00000000 :: 64 word) = push_bit 32 (mask 8)"
  "(0x00000000ff000000 :: 64 word) = push_bit 24 (mask 8)"
  by (simp_all add: mask_eq_exp_minus_1)

lemma swap32_bytes: "le_bytes 4 (swap32 y) = be_bytes 4 y"
  apply (simp add: le_bytes_def be_bytes_4 swap32_def masks32)
  apply (intro conjI; rule bit_word_eqI; simp add: bit_simps; auto?)
  done

lemma swap64_bytes: "le_bytes 8 (swap64 y) = be_bytes 8 y"
  apply (simp add: le_bytes_def be_bytes_8 swap64_def masks64)
  apply (intro conjI; rule bit_word_eqI; simp add: bit_simps; auto?)
  done

lemma long_bits_pos: "0 < long_bits lw"
  by (cases lw) (simp_all add: long_bits_def)

lemma to_unsigned_long_small:
  "0 \<le> k \<Longrightarrow> k < 2 ^ long_bits lw \<Longrightarrow> to_unsigned_long lw k = nat k"
  by (simp add: to_unsigned_long_def)

lemma to_long_small: "n < 2 ^ 31 \<Longrightarrow> to_long lw (int n) = int n"
  by (cases lw) (simp_all add: to_long_def long_bits_def)

lemma to_long_64: "n < 2 ^ 63 \<Longrightarrow> to_long LONG_64 (int n) = int n"
  by (simp add: to_long_def long_bits_def)

lemma unat_bound_63:
  assumes "LENGTH('a::len) \<le> 63"
  shows "unat (w :: 'a word) < 9223372036854775808"
proof -
  have "unat w < (2::nat) ^ LENGTH('a)" by (rule unsigned_less)
  also have "\<dots> \<le> 2 ^ 63" using assms by (intro power_increasing) simp_all
  finally show ?thesis by simp
qed

lemma window_eq:
  assumes "current c \<le> endp c" and "endp c - current c < 2 ^ long_bits lw"
  shows "window lw c = endp c - current c"
proof -
  have i: "int (endp c) - int (current c) = int (endp c - current c)"
    using assms(1) by linarith
  have b: "int (endp c - current c) < 2 ^ long_bits lw"
    using assms(2) by (cases lw) (simp_all add: long_bits_def)
  have "int (endp c - current c) mod 2 ^ long_bits lw = int (endp c - current c)"
    using b by (intro mod_pos_pos_trivial) simp_all
  then show ?thesis
    by (simp only: window_def to_unsigned_long_def i nat_int)
qed

lemma reserve_ok: "n \<le> window lw c \<Longrightarrow> cw_pack_reserve_space lw hpo n k c = Inr c"
  by (simp add: cw_pack_reserve_space_def)

lemma reserve_overflow: "window lw c < n \<Longrightarrow> cw_pack_reserve_space lw None n k c = Inl (CWP_RC_BUFFER_OVERFLOW, c\<lparr>return_code := CWP_RC_BUFFER_OVERFLOW\<rparr>)"
  by (simp add: cw_pack_reserve_space_def)

lemma emit_fields [simp]:
  "current (emit bs c) = current c + length bs"
  "endp (emit bs c) = endp c"
  "start (emit bs c) = start c"
  "return_code (emit bs c) = return_code c"
  "errno (emit bs c) = errno c"
  "mem (emit bs c) = store_bytes (mem c) (current c) bs"
  by (simp_all add: emit_def)

lemma load_store_bytes: "n = length bs \<Longrightarrow> load_bytes (store_bytes m a bs) a n = bs"
  by (auto simp: load_bytes_def store_bytes_def intro!: nth_equalityI)

lemma memcpy_store: "memcpy m dst src n = store_bytes m dst (load_bytes m src n)"
  by (auto simp: memcpy_def store_bytes_def load_bytes_def fun_eq_iff)

lemma store_bytes_outside: "p < a \<or> a + length bs \<le> p \<Longrightarrow> store_bytes m a bs p = m p"
  by (auto simp: store_bytes_def)

lemma load_bytes_0 [simp]: "load_bytes m a 0 = []"
  by (simp add: load_bytes_def)

lemma load_bytes_Suc: "load_bytes m a (Suc n) = m a # load_bytes m (Suc a) n"
  by (simp add: load_bytes_def upt_conv_Cons del: upt_Suc)

lemma pack_nil_ok: "return_code p = CWP_RC_OK \<Longrightarrow> 1 \<le> window lw p \<Longrightarrow> cw_pack_nil lw hpo p = (CWP_RC_OK, emit [0xc0] p)"
  by (simp add: cw_pack_nil_def tryMove0_def reserve_ok put_byte_emit)

lemma pack_boolean_ok: "return_code p = CWP_RC_OK \<Longrightarrow> 1 \<le> window lw p \<Longrightarrow> cw_pack_boolean lw hpo p b = (CWP_RC_OK, emit [if b then 0xc3 else 0xc2] p)"
  by (simp add: cw_pack_boolean_def tryMove0_def reserve_ok put_byte_emit)

lemma copy_blob_emit: "copy_blob v l c = emit (load_bytes (mem c) v (unat l)) c"
  by (simp add: copy_blob_def emit_def memcpy_store load_bytes_def)

lemma nat_range_cases:
  fixes n :: nat
  assumes "192 \<le> n" "n < 224"
  shows "n = 192 \<or> n = 193 \<or> n = 194 \<or> n = 195
     \<or> n = 196 \<or> n = 197 \<or> n = 198 \<or> n = 199 \<or> n = 200 \<or> n = 201
     \<or> n = 202 \<or> n = 203 \<or> n = 204 \<or> n = 205 \<or> n = 206 \<or> n = 207
     \<or> n = 208 \<or> n = 209 \<or> n = 210 \<or> n = 211 \<or> n = 212 \<or> n = 213
     \<or> n = 214 \<or> n = 215 \<or> n = 216 \<or> n = 217 \<or> n = 218 \<or> n = 219
     \<or> n = 220 \<or> n = 221 \<or> n = 222 \<or> n = 223"
proof -
  have "n \<in> {192..<224}" using assms by simp
  also have "{192..<224::nat} = set [192..<224]" by (simp only: set_upt)
  finally show ?thesis by simp
qed

lemma byte_range_cases:
  fixes c :: byte
  assumes "0xc0 \<le> c" "c \<le> 0xdf"
  shows "c = 0xc0 \<or> c = 0xc1 \<or> c = 0xc2 \<or> c = 0xc3 \<or> c = 0xc4 \<or> c = 0xc5 \<or> c = 0xc6 \<or> c = 0xc7
    \<or> c = 0xc8 \<or> c = 0xc9 \<or> c = 0xca \<or> c = 0xcb \<or> c = 0xcc \<or> c = 0xcd \<or> c = 0xce \<or> c = 0xcf
    \<or> c = 0xd0 \<or> c = 0xd1 \<or> c = 0xd2 \<or> c = 0xd3 \<or> c = 0xd4 \<or> c = 0xd5 \<or> c = 0xd6 \<or> c = 0xd7
    \<or> c = 0xd8 \<or> c = 0xd9 \<or> c = 0xda \<or> c = 0xdb \<or> c = 0xdc \<or> c = 0xdd \<or> c = 0xde \<or> c = 0xdf"
proof -
  have "192 \<le> unat c" "unat c < 224"
    using assms by (simp_all add: word_le_nat_alt)
  from nat_range_cases [OF this] show ?thesis
    by (simp add: word_unat_eq_iff)
qed

lemma byte_cases [case_names fixpos fixmap fixarray fixstr xc0 xc1 xc2 xc3 xc4 xc5 xc6 xc7 xc8 xc9
    xca xcb xcc xcd xce xcf xd0 xd1 xd2 xd3 xd4 xd5 xd6 xd7 xd8 xd9 xda xdb xdc xdd xde xdf fixneg]:
  fixes c :: byte
  obtains "c \<le> 0x7f" | "0x80 \<le> c" "c \<le> 0x8f" | "0x90 \<le> c" "c \<le> 0x9f" | "0xa0 \<le> c" "c \<le> 0xbf"
    | "c = 0xc0" | "c = 0xc1" | "c = 0xc2" | "c = 0xc3" | "c = 0xc4" | "c = 0xc5" | "c = 0xc6" | "c = 0xc7"
    | "c = 0xc8" | "c = 0xc9" | "c = 0xca" | "c = 0xcb" | "c = 0xcc" | "c = 0xcd" | "c = 0xce" | "c = 0xcf"
    | "c = 0xd0" | "c = 0xd1" | "c = 0xd2" | "c = 0xd3" | "c = 0xd4" | "c = 0xd5" | "c = 0xd6" | "c = 0xd7"
    | "c = 0xd8" | "c = 0xd9" | "c = 0xda" | "c = 0xdb" | "c = 0xdc" | "c = 0xdd" | "c = 0xde" | "c = 0xdf"
    | "0xe0 \<le> c"
proof -
  consider "c \<le> 0x7f" | "0x80 \<le> c \<and> c \<le> 0x8f" | "0x90 \<le> c \<and> c \<le> 0x9f"
    | "0xa0 \<le> c \<and> c \<le> 0xbf" | "0xc0 \<le> c \<and> c \<le> 0xdf" | "0xe0 \<le> c"
    by (simp add: word_le_nat_alt) arith
  then show thesis
  proof cases
    case 5
    then have "0xc0 \<le> c" "c \<le> 0xdf" by simp_all
    from byte_range_cases [OF this] show thesis
      using that(5-36) by blast
  qed (use that in blast)+
qed

lemma be_word_1: "be_word [a] = ucast a"
  by (simp add: be_word_def)

lemma be_word_2: "be_word [a, b] = push_bit 8 (ucast a) OR ucast b"
  by (simp add: be_word_def)

lemma be_word_4:
  "be_word [a, b, c, d] =
     push_bit 24 (ucast a) OR push_bit 16 (ucast b) OR push_bit 8 (ucast c) OR ucast d"
  by (simp add: be_word_def ac_simps)

lemma be_word_8:
  "be_word [a, b, c, d, e, f, g, h] =
     push_bit 56 (ucast a) OR push_bit 48 (ucast b) OR push_bit 40 (ucast c)
       OR push_bit 32 (ucast d) OR push_bit 24 (ucast e) OR push_bit 16 (ucast f)
       OR push_bit 8 (ucast g) OR ucast h"
  by (simp add: be_word_def ac_simps)

lemma load_bytes_2: "load_bytes m a 2 = [m a, m (a + 1)]"
  by (simp add: numeral_2_eq_2 load_bytes_Suc)

lemma load_bytes_4: "load_bytes m a 4 = [m a, m (a + 1), m (a + 2), m (a + 3)]"
  by (simp add: eval_nat_numeral load_bytes_Suc)

lemma load_bytes_8:
  "load_bytes m a 8 = [m a, m (a + 1), m (a + 2), m (a + 3), m (a + 4), m (a + 5), m (a + 6), m (a + 7)]"
  by (simp add: eval_nat_numeral load_bytes_Suc)

lemma cw_load16_eq:
  "cw_load16 bo u = (be_word (load_bytes (mem u) (current u) 2), u\<lparr>current := current u + 2\<rparr>)"
  by (cases bo) (simp_all add: cw_load16_def load_bytes_2 be_word_2)

lemma cw_load32_eq:
  "cw_load32 bo u = (be_word (load_bytes (mem u) (current u) 4), u\<lparr>current := current u + 4\<rparr>)"
  by (cases bo) (simp_all add: cw_load32_def load_bytes_4 be_word_4)

lemma assert_space_ok:
  "n < 2 ^ 31 \<Longrightarrow> current u + n \<le> endp u \<Longrightarrow>
     cw_unpack_assert_space lw huu code n u = Inr u"
  by (simp add: cw_unpack_assert_space_def to_long_small)

lemma assert_space_fail:
  "n < 2 ^ 31 \<Longrightarrow> endp u < current u + n \<Longrightarrow>
     cw_unpack_assert_space lw None code n u = Inl (code, u\<lparr>return_code := code\<rparr>)"
  by (simp add: cw_unpack_assert_space_def to_long_small)

lemma assert_space_long_64:
  "n < 2 ^ 63 \<Longrightarrow>
     cw_unpack_assert_space LONG_64 None code n u
       = (if endp u < current u + n then Inl (code, u\<lparr>return_code := code\<rparr>) else Inr u)"
  by (auto simp add: cw_unpack_assert_space_def to_long_64)

lemma unat_ucast_up:
  assumes "LENGTH('a::len) \<le> LENGTH('b::len)"
  shows "unat (ucast (x :: 'a word) :: 'b word) = unat x"
proof -
  have "unat x < (2::nat) ^ LENGTH('a)" by (rule unsigned_less)
  also have "\<dots> \<le> 2 ^ LENGTH('b)" using assms by (simp add: power_increasing)
  finally show ?thesis by (simp add: unsigned_ucast_eq take_bit_nat_eq_self)
qed

lemmas unpack_defs = cw_unpack_next_def get_byte_def unpack_item_def getDDItem1_def getDDItem2_def
  getDDItem4_def getDDItem8_def getDDItemFix_def get_ext_type_def cw_unpack_assert_blob_def
  and_then_def set_type_def set_length_def set_size_def set_i64_def set_boolean_def
  set_real_float_def positive_if_not_negative_def cw_load16_eq cw_load32_eq

lemma unpack_end_of_input:
  assumes "return_code u = CWP_RC_OK" and "endp u \<le> current u"
  shows "cw_unpack_next lw bo None u = (CWP_RC_END_OF_INPUT, u\<lparr>return_code := CWP_RC_END_OF_INPUT\<rparr>)"
  using assms by (simp add: cw_unpack_next_def assert_space_fail)

lemma unpack_underflow:
  assumes "return_code u = CWP_RC_OK" and "current u < endp u"
    and "mem u (current u) \<noteq> 0xc1"
    and "endp u < current u + wire_length (mem u) (current u)"
  shows "\<exists>u'. cw_unpack_next LONG_64 bo None u = (CWP_RC_BUFFER_UNDERFLOW, u')
            \<and> return_code u' = CWP_RC_BUFFER_UNDERFLOW"
proof -
  let ?c = "mem u (current u)"
  show ?thesis
    using assms
    apply (cases ?c rule: byte_cases)
    apply (simp_all add: unpack_defs wire_length_def assert_space_long_64 unat_bound_63
         load_bytes_2 load_bytes_4 be_word_2 be_word_4 word_le_nat_alt word_unat_eq_iff Let_def
         unat_ucast_up)
    apply (simp_all add: numeral_3_eq_3 add.commute)
    done
qed

lemma nils: "(\<forall>p. a \<le> p \<and> p < a + n \<longrightarrow> m p = 0xc0) \<Longrightarrow> items_at m a n (a + n)"
proof (induction n arbitrary: a)
  case 0
  then show ?case by (simp add: none)
next
  case (Suc n)
  have c: "m a = 0xc0" using Suc.prems by simp
  then have "item_at m a (a + 1)"
    using scalar [of m a] by (simp add: scalar_prefix_def wire_length_def)
  moreover have "items_at m (a + 1) n (a + 1 + n)"
    using Suc.prems by (intro Suc.IH) simp
  ultimately show ?case using more [of m a "a + 1" n "a + 1 + n"] by simp
qed

lemma wide_legal: "items_at wide_map_memory 0 1 (5 + 2 ^ 32)"
proof -
  have mc: "map_count wide_map_memory 0 = Some (2 ^ 31)"
    by (simp add: map_count_def wide_map_memory_def store_bytes_def load_bytes_4 be_word_4)
  have wl: "wire_length wide_map_memory 0 = 5"
    by (simp add: wire_length_def wide_map_memory_def store_bytes_def)
  have "items_at wide_map_memory 5 (2 ^ 32) (5 + 2 ^ 32)"
    by (rule nils) (simp add: wide_map_memory_def store_bytes_def)
  then have "item_at wide_map_memory 0 (5 + 2 ^ 32)"
    using map [of wide_map_memory 0 "2 ^ 31" "5 + 2 ^ 32"] mc wl by simp
  then show ?thesis
    using more [of wide_map_memory 0 "5 + 2 ^ 32" 0 "5 + 2 ^ 32"] none by simp
qed

lemma wide_skip:
  "cw_skip_items lw bo None (unpacker wide_map_memory 0 (5 + 2 ^ 32)) 1
     = Some (CWP_RC_OK, (unpacker wide_map_memory 0 (5 + 2 ^ 32))\<lparr>current := 5\<rparr>)"
  apply (simp add: cw_skip_items_def unpacker_def)
  apply (subst cw_skip_loop.simps)
  apply (cases lw)
   apply (simp_all add: assert_space_ok get_byte_def skip_item_def skip_load32_def and_then_def
       cw_load32_eq load_bytes_4 be_word_4 wide_map_memory_def store_bytes_def add_unsigned_def
       to_long_def long_bits_def)
   apply (subst cw_skip_loop.simps, simp)+
  done

lemma length_be_bytes [simp]: "length (be_bytes n x) = n"
  by (induction n) simp_all

lemma cw_store16_bytes:
  "bo \<noteq> COMPILE_FOR_BIG_ENDIAN \<Longrightarrow> cw_store16 bo x c = emit (be_bytes 2 x) c"
  by (cases bo) (simp_all add: cw_store16_def put_byte_emit emit_emit be_bytes_2)

lemma be_bytes_4_ucast:
  "32 \<le> LENGTH('a::len) \<Longrightarrow> be_bytes 4 (ucast (x :: 'a word) :: 32 word) = be_bytes 4 x"
  apply (simp add: be_bytes_4)
  apply (intro conjI; rule bit_word_eqI; simp add: bit_simps; auto?)
  done

lemma cw_store32_bytes:
  "bo \<noteq> COMPILE_FOR_BIG_ENDIAN \<Longrightarrow> 32 \<le> LENGTH('a::len) \<Longrightarrow>
     cw_store32 bo (x :: 'a word) c = emit (be_bytes 4 x) c"
proof (cases bo)
  case COMPILE_FOR_LITTLE_ENDIAN
  assume "32 \<le> LENGTH('a)"
  then show ?thesis
    using COMPILE_FOR_LITTLE_ENDIAN
    by (simp add: cw_store32_def swap32_bytes be_bytes_4_ucast emit_def)
next
  case BYTE_ORDER_UNDETERMINED
  then show ?thesis
    by (simp add: cw_store32_def put_byte_emit emit_emit be_bytes_4)
qed simp

lemma obj_rep_be_64: "obj_rep_be (x :: 64 word) = be_bytes 8 x"
  by (simp add: obj_rep_be_def)

lemma obj_rep_be_32: "obj_rep_be (x :: 32 word) = be_bytes 4 x"
  by (simp add: obj_rep_be_def)

lemma cw_store64_bytes: "cw_store64 bo x c = emit (be_bytes 8 x) c"
proof (cases bo)
  case COMPILE_FOR_BIG_ENDIAN
  then show ?thesis by (simp add: cw_store64_def obj_rep_be_64 emit_def)
next
  case COMPILE_FOR_LITTLE_ENDIAN
  then show ?thesis by (simp add: cw_store64_def swap64_bytes emit_def)
next
  case BYTE_ORDER_UNDETERMINED
  then show ?thesis by (simp add: cw_store64_def put_byte_emit emit_emit be_bytes_8)
qed

lemma cw_store16_big_endian_64:
  "cw_store16 COMPILE_FOR_BIG_ENDIAN (x :: 64 word) c
     = emit [ucast (drop_bit 56 x), ucast (drop_bit 48 x)] c"
  by (simp add: cw_store16_def obj_rep_be_64 be_bytes_8 emit_def)

lemma cw_store16_big_endian_32:
  "cw_store16 COMPILE_FOR_BIG_ENDIAN (x :: 32 word) c
     = emit [ucast (drop_bit 24 x), ucast (drop_bit 16 x)] c"
  by (simp add: cw_store16_def obj_rep_be_32 be_bytes_4 emit_def)

lemma cw_store32_big_endian_64:
  "cw_store32 COMPILE_FOR_BIG_ENDIAN (x :: 64 word) c
     = emit [ucast (drop_bit 56 x), ucast (drop_bit 48 x), ucast (drop_bit 40 x),
             ucast (drop_bit 32 x)] c"
  by (simp add: cw_store32_def obj_rep_be_64 be_bytes_8 emit_def)

lemma cw_store32_big_endian_32:
  "cw_store32 COMPILE_FOR_BIG_ENDIAN (x :: 32 word) c = emit (be_bytes 4 x) c"
  by (simp add: cw_store32_def obj_rep_be_32 be_bytes_4 emit_def)

lemma length_load_bytes [simp]: "length (load_bytes m a n) = n"
  by (simp add: load_bytes_def)

subsection \<open>The sticky return code\<close>

text \<open>
  C4. Once \<open>return_code\<close> is not OK, every packing operation, \<open>cw_unpack_next\<close> and
  \<open>cw_skip_items\<close> return the stopped code and hand the context back as it was: the memory
  is not written and \<open>current\<close> does not move. The result holds for every memory content,
  so nothing of the buffer is read, and for every handler, so none is called.
\<close>

theorem return_code_sticky:
  assumes "return_code p \<noteq> CWP_RC_OK" and "return_code u \<noteq> CWP_RC_OK"
  shows "cw_pack_unsigned lw bo hpo p i = (CWP_RC_STOPPED, p)
     \<and> cw_pack_signed lw bo hpo p i = (CWP_RC_STOPPED, p)
     \<and> cw_pack_float lw bo hpo p f = (CWP_RC_STOPPED, p)
     \<and> cw_pack_double lw bo hpo p d = (CWP_RC_STOPPED, p)
     \<and> cw_pack_nil lw hpo p = (CWP_RC_STOPPED, p)
     \<and> cw_pack_boolean lw hpo p b = (CWP_RC_STOPPED, p)
     \<and> cw_pack_array_size lw bo hpo p n = (CWP_RC_STOPPED, p)
     \<and> cw_pack_map_size lw bo hpo p n = (CWP_RC_STOPPED, p)
     \<and> cw_pack_str lw bo hpo p v l = (CWP_RC_STOPPED, p)
     \<and> cw_pack_bin lw bo hpo p v l = (CWP_RC_STOPPED, p)
     \<and> cw_pack_ext lw bo hpo p t v l = (CWP_RC_STOPPED, p)
     \<and> cw_unpack_next lw bo huu u = (CWP_RC_STOPPED, u)
     \<and> cw_skip_items lw bo huu u k = Some (CWP_RC_STOPPED, u)"
  using assms
  by (simp add: cw_pack_unsigned_def cw_pack_signed_def cw_pack_float_def cw_pack_double_def
      cw_pack_nil_def cw_pack_boolean_def cw_pack_array_size_def cw_pack_map_size_def
      cw_pack_str_def cw_pack_bin_def cw_pack_ext_def cw_unpack_next_def cw_skip_items_def)

theorem return_code_sticky_witness:
  "return_code ((packer (\<lambda>_. 0) 0 16)\<lparr>return_code := CWP_RC_BUFFER_OVERFLOW\<rparr>) \<noteq> CWP_RC_OK
   \<and> return_code ((unpacker (memory_of [0xc0]) 0 1)\<lparr>return_code := CWP_RC_MALFORMED_INPUT\<rparr>)
       \<noteq> CWP_RC_OK
   \<and> cw_pack_nil LONG_64 None ((packer (\<lambda>_. 0) 0 16)\<lparr>return_code := CWP_RC_BUFFER_OVERFLOW\<rparr>)
       = (CWP_RC_STOPPED, (packer (\<lambda>_. 0) 0 16)\<lparr>return_code := CWP_RC_BUFFER_OVERFLOW\<rparr>)
   \<and> cw_unpack_next LONG_64 BYTE_ORDER_UNDETERMINED None
         ((unpacker (memory_of [0xc0]) 0 1)\<lparr>return_code := CWP_RC_MALFORMED_INPUT\<rparr>)
       = (CWP_RC_STOPPED,
          (unpacker (memory_of [0xc0]) 0 1)\<lparr>return_code := CWP_RC_MALFORMED_INPUT\<rparr>)"
  using return_code_sticky
    [where p = "(packer (\<lambda>_. 0) 0 16)\<lparr>return_code := CWP_RC_BUFFER_OVERFLOW\<rparr>"
       and u = "(unpacker (memory_of [0xc0]) 0 1)\<lparr>return_code := CWP_RC_MALFORMED_INPUT\<rparr>"
       and lw = LONG_64 and bo = BYTE_ORDER_UNDETERMINED and hpo = None and huu = None
       and i = 0 and f = 0 and d = 0 and b = False and n = 0 and v = 0 and l = 0 and t = 0
       and k = 1]
  by simp

subsection \<open>Skipping no items\<close>

text \<open>
  C10. On a context whose return code is OK, \<open>cw_skip_items\<close> with a count of zero or less
  returns OK and the unchanged context, whatever the memory holds and whatever the
  handler is: no byte is read, \<open>current\<close> stays, the handler is not called.
\<close>

theorem skip_no_items:
  assumes "return_code u = CWP_RC_OK" and "item_count \<le> 0"
  shows "cw_skip_items lw bo huu u item_count = Some (CWP_RC_OK, u)"
  using assms by (simp add: cw_skip_items_def cw_skip_loop.simps)

theorem skip_no_items_witness:
  "return_code (unpacker (memory_of [0x93, 1, 2, 3]) 0 4) = CWP_RC_OK \<and> (0::int) \<le> 0
   \<and> cw_skip_items LONG_64 COMPILE_FOR_LITTLE_ENDIAN None
         (unpacker (memory_of [0x93, 1, 2, 3]) 0 4) 0
       = Some (CWP_RC_OK, unpacker (memory_of [0x93, 1, 2, 3]) 0 4)"
  using skip_no_items
    [where u = "unpacker (memory_of [0x93, 1, 2, 3]) 0 4" and item_count = 0
       and lw = LONG_64 and bo = COMPILE_FOR_LITTLE_ENDIAN and huu = None]
  by (simp add: unpacker_def)

subsection \<open>The reserved prefix\<close>

text \<open>
  C6. With the byte \<open>0xc1\<close> at \<open>current\<close> inside the window, \<open>cw_unpack_next\<close> returns
  malformed input and stores it as the return code; after that \<open>cw_unpack_next\<close> and
  \<open>cw_skip_items\<close> return stopped.
\<close>

theorem malformed_rejection:
  assumes "return_code u = CWP_RC_OK" and "current u < endp u" and "mem u (current u) = 0xc1"
  shows "\<exists>u'. cw_unpack_next lw bo huu u = (CWP_RC_MALFORMED_INPUT, u')
           \<and> return_code u' = CWP_RC_MALFORMED_INPUT
           \<and> cw_unpack_next lw bo huu' u' = (CWP_RC_STOPPED, u')
           \<and> cw_skip_items lw bo huu' u' item_count = Some (CWP_RC_STOPPED, u')"
  using assms
  by (simp add: cw_unpack_next_def assert_space_ok get_byte_def unpack_item_def
      cw_skip_items_def)

theorem malformed_rejection_witness:
  "return_code (unpacker (memory_of [0xc1]) 0 1) = CWP_RC_OK
   \<and> current (unpacker (memory_of [0xc1]) 0 1) < endp (unpacker (memory_of [0xc1]) 0 1)
   \<and> mem (unpacker (memory_of [0xc1]) 0 1) (current (unpacker (memory_of [0xc1]) 0 1)) = 0xc1
   \<and> (\<exists>u'. cw_unpack_next LONG_32 BYTE_ORDER_UNDETERMINED None
                (unpacker (memory_of [0xc1]) 0 1)
              = (CWP_RC_MALFORMED_INPUT, u')
           \<and> return_code u' = CWP_RC_MALFORMED_INPUT
           \<and> cw_unpack_next LONG_32 BYTE_ORDER_UNDETERMINED None u' = (CWP_RC_STOPPED, u')
           \<and> cw_skip_items LONG_32 BYTE_ORDER_UNDETERMINED None u' 1
                = Some (CWP_RC_STOPPED, u'))"
  using malformed_rejection
    [where u = "unpacker (memory_of [0xc1]) 0 1" and lw = LONG_32
       and bo = BYTE_ORDER_UNDETERMINED and huu = None and huu' = None and item_count = 1]
  by (simp add: unpacker_def memory_of_def store_bytes_def)

subsection \<open>End of input and buffer underflow\<close>

text \<open>
  \<open>cw_unpack_next\<close> without an underflow handler, on a context whose return code is OK.
  If not even the prefix byte is inside the window it returns and stores end of input,
  whatever the width of \<open>long\<close>. Where \<open>long\<close> has 64 bits: if the prefix byte is there (and
  is not the reserved \<open>0xc1\<close>) but the window ends before the item does, it returns and
  stores buffer underflow.
\<close>

lemma buffer_end_codes_long_64:
  assumes "return_code u = CWP_RC_OK"
  shows "(endp u \<le> current u \<longrightarrow>
            cw_unpack_next lw bo None u
              = (CWP_RC_END_OF_INPUT, u\<lparr>return_code := CWP_RC_END_OF_INPUT\<rparr>))
       \<and> (current u < endp u \<and> mem u (current u) \<noteq> 0xc1
            \<and> endp u < current u + wire_length (mem u) (current u) \<longrightarrow>
            (\<exists>u'. cw_unpack_next LONG_64 bo None u = (CWP_RC_BUFFER_UNDERFLOW, u')
                 \<and> return_code u' = CWP_RC_BUFFER_UNDERFLOW))"
  using assms unpack_end_of_input [of u lw bo] unpack_underflow [of u bo]
  by blast

text \<open>
  C5. Where \<open>long\<close> has 32 bits the failure code for a truncated item is not always buffer
  underflow. The five bytes \<open>0xc6 0xff 0xff 0xff 0xff\<close> are the header of a bin 32 item of
  \<open>2 ^ 32 - 1\<close> bytes, none of which is in the buffer. \<open>(long)(more)\<close> is \<open>-1\<close>, the demand for
  the payload passes, and \<open>cw_unpack_next\<close> returns OK with \<open>current\<close> beyond \<open>end\<close> and no
  return code stored. Where \<open>long\<close> has 64 bits the same call returns buffer underflow. An
  empty buffer yields end of input and the single byte \<open>0xcd\<close> yields buffer underflow for
  either width.
\<close>

theorem truncated_bin_32_accepted:
  "wire_length (memory_of [0xc6, 0xff, 0xff, 0xff, 0xff]) 0 = 4 + 2 ^ 32
   \<and> fst (cw_unpack_next LONG_32 bo None (unpacker (memory_of [0xc6, 0xff, 0xff, 0xff, 0xff]) 0 5))
        = CWP_RC_OK
   \<and> return_code
        (snd (cw_unpack_next LONG_32 bo None
           (unpacker (memory_of [0xc6, 0xff, 0xff, 0xff, 0xff]) 0 5)))
        = CWP_RC_OK
   \<and> type (item
        (snd (cw_unpack_next LONG_32 bo None
           (unpacker (memory_of [0xc6, 0xff, 0xff, 0xff, 0xff]) 0 5))))
        = CWP_ITEM_BIN
   \<and> as_length (item
        (snd (cw_unpack_next LONG_32 bo None
           (unpacker (memory_of [0xc6, 0xff, 0xff, 0xff, 0xff]) 0 5))))
        = 0xffffffff
   \<and> current
        (snd (cw_unpack_next LONG_32 bo None
           (unpacker (memory_of [0xc6, 0xff, 0xff, 0xff, 0xff]) 0 5)))
        = 4 + 2 ^ 32
   \<and> endp
        (snd (cw_unpack_next LONG_32 bo None
           (unpacker (memory_of [0xc6, 0xff, 0xff, 0xff, 0xff]) 0 5)))
        = 5
   \<and> fst (cw_unpack_next LONG_64 bo None (unpacker (memory_of [0xc6, 0xff, 0xff, 0xff, 0xff]) 0 5))
        = CWP_RC_BUFFER_UNDERFLOW
   \<and> fst (cw_unpack_next lw bo None (unpacker m a 0)) = CWP_RC_END_OF_INPUT
   \<and> return_code (snd (cw_unpack_next lw bo None (unpacker m a 0))) = CWP_RC_END_OF_INPUT
   \<and> fst (cw_unpack_next lw bo None (unpacker (memory_of [0xcd]) 0 1)) = CWP_RC_BUFFER_UNDERFLOW
   \<and> return_code (snd (cw_unpack_next lw bo None (unpacker (memory_of [0xcd]) 0 1)))
        = CWP_RC_BUFFER_UNDERFLOW"
proof -
  have empty: "cw_unpack_next lw bo None (unpacker m a 0)
      = (CWP_RC_END_OF_INPUT, (unpacker m a 0)\<lparr>return_code := CWP_RC_END_OF_INPUT\<rparr>)"
    by (rule unpack_end_of_input) (simp_all add: unpacker_def)
  have single: "cw_unpack_next lw bo None (unpacker (memory_of [0xcd]) 0 1)
      = (CWP_RC_BUFFER_UNDERFLOW,
         (unpacker (memory_of [0xcd]) 0 1)
           \<lparr>current := 1, return_code := CWP_RC_BUFFER_UNDERFLOW,
            item := blank_item\<lparr>type := CWP_ITEM_POSITIVE_INTEGER\<rparr>\<rparr>)"
    by (simp add: unpack_defs assert_space_ok assert_space_fail unpacker_def memory_of_def
        store_bytes_def)
  have wl: "wire_length (memory_of [0xc6, 0xff, 0xff, 0xff, 0xff]) 0 = 4 + 2 ^ 32"
    by (simp add: wire_length_def memory_of_def store_bytes_def be_word_4)
  have long_32: "cw_unpack_next LONG_32 bo None (unpacker (memory_of [0xc6, 0xff, 0xff, 0xff, 0xff]) 0 5)
      = (CWP_RC_OK,
         (unpacker (memory_of [0xc6, 0xff, 0xff, 0xff, 0xff]) 0 5)
           \<lparr>current := 4 + 2 ^ 32,
            item := blank_item\<lparr>type := CWP_ITEM_BIN, as_length := 0xffffffff, as_start := 5\<rparr>\<rparr>)"
    by (simp add: unpack_defs assert_space_ok unpacker_def memory_of_def store_bytes_def
        load_bytes_4 be_word_4 cw_unpack_assert_space_def to_long_def long_bits_def)
  have long_64: "fst (cw_unpack_next LONG_64 bo None
      (unpacker (memory_of [0xc6, 0xff, 0xff, 0xff, 0xff]) 0 5)) = CWP_RC_BUFFER_UNDERFLOW"
    by (simp add: unpack_defs assert_space_ok unpacker_def memory_of_def store_bytes_def
        load_bytes_4 be_word_4 cw_unpack_assert_space_def to_long_def long_bits_def)
  show ?thesis
    using empty single wl long_32 long_64 by (simp add: unpacker_def)
qed

subsection \<open>Byte-exact vectors\<close>

text \<open>
  C8. On a pack context whose return code is OK and whose window has room for three
  bytes (and is not longer than an \<open>unsigned long\<close> can count): \<open>cw_pack_nil\<close>, \<open>cw_pack_boolean\<close> with true and \<open>cw_pack_boolean\<close> with false write
  \<open>0xc0 0xc3 0xc2\<close>; \<open>cw_pack_str\<close> of the two bytes "hi" writes \<open>0xa2 0x68 0x69\<close>; \<open>cw_pack_ext\<close> with
  type 7 of the one byte \<open>0x01\<close> writes \<open>0xd4 0x07 0x01\<close>. Each time the bytes stand at the old
  \<open>current\<close> and \<open>current\<close> has moved by three. (The payload of a blob lies outside the bytes
  being written.)
\<close>

theorem byte_exact_vectors:
  assumes "return_code p = CWP_RC_OK" and "current p + 3 \<le> endp p"
    and "endp p - current p < 2 ^ long_bits lw"
  shows "(\<exists>p1 p2 p3.
            cw_pack_nil lw hpo p = (CWP_RC_OK, p1)
          \<and> cw_pack_boolean lw hpo p1 True = (CWP_RC_OK, p2)
          \<and> cw_pack_boolean lw hpo p2 False = (CWP_RC_OK, p3)
          \<and> load_bytes (mem p3) (current p) 3 = [0xc0, 0xc3, 0xc2]
          \<and> current p3 = current p + 3)
       \<and> (load_bytes (mem p) v 2 = [0x68, 0x69] \<and> (v + 2 \<le> current p \<or> current p + 3 \<le> v) \<longrightarrow>
            (\<exists>p1. cw_pack_str lw bo hpo p v 2 = (CWP_RC_OK, p1)
                 \<and> load_bytes (mem p1) (current p) 3 = [0xa2, 0x68, 0x69]
                 \<and> current p1 = current p + 3))
       \<and> (mem p w = 0x01 \<and> (w < current p \<or> current p + 3 \<le> w) \<longrightarrow>
            (\<exists>p1. cw_pack_ext lw bo hpo p 7 w 1 = (CWP_RC_OK, p1)
                 \<and> load_bytes (mem p1) (current p) 3 = [0xd4, 0x07, 0x01]
                 \<and> current p1 = current p + 3))"
proof (intro conjI impI)
  have room: "3 \<le> window lw p" using assms by (simp add: window_eq)
  let ?p1 = "emit [0xc0] p"
  let ?p2 = "emit [0xc3] ?p1"
  let ?p3 = "emit [0xc2] ?p2"
  have 1: "cw_pack_nil lw hpo p = (CWP_RC_OK, ?p1)"
    using assms room by (intro pack_nil_ok) simp_all
  have 2: "cw_pack_boolean lw hpo ?p1 True = (CWP_RC_OK, ?p2)"
    using assms pack_boolean_ok [where p = ?p1 and lw = lw and hpo = hpo and b = True]
    by (simp add: window_eq)
  have 3: "cw_pack_boolean lw hpo ?p2 False = (CWP_RC_OK, ?p3)"
    using assms pack_boolean_ok [where p = ?p2 and lw = lw and hpo = hpo and b = False]
    by (simp add: window_eq)
  have 4: "?p3 = emit [0xc0, 0xc3, 0xc2] p" by (simp add: emit_emit)
  have 5: "load_bytes (mem ?p3) (current p) 3 = [0xc0, 0xc3, 0xc2]"
    unfolding 4
    using load_store_bytes [where m = "mem p" and a = "current p"
        and bs = "[0xc0, 0xc3, 0xc2]" and n = 3]
    by simp
  show "\<exists>p1 p2 p3.
            cw_pack_nil lw hpo p = (CWP_RC_OK, p1)
          \<and> cw_pack_boolean lw hpo p1 True = (CWP_RC_OK, p2)
          \<and> cw_pack_boolean lw hpo p2 False = (CWP_RC_OK, p3)
          \<and> load_bytes (mem p3) (current p) 3 = [0xc0, 0xc3, 0xc2]
          \<and> current p3 = current p + 3"
    using 1 2 3 5 by simp
next
  assume src: "load_bytes (mem p) v 2 = [0x68, 0x69] \<and> (v + 2 \<le> current p \<or> current p + 3 \<le> v)"
  have room: "3 \<le> window lw p" using assms by (simp add: window_eq)
  have "load_bytes (mem (emit [0xa2] p)) v 2 = [0x68, 0x69]"
    using src by (auto simp: load_bytes_Suc store_bytes_def numeral_2_eq_2)
  then have "cw_pack_str lw bo hpo p v 2 = (CWP_RC_OK, emit [0xa2, 0x68, 0x69] p)"
    using assms(1) room
    by (simp add: cw_pack_str_def reserve_ok put_byte_emit copy_blob_emit emit_emit)
  then show "\<exists>p1. cw_pack_str lw bo hpo p v 2 = (CWP_RC_OK, p1)
                 \<and> load_bytes (mem p1) (current p) 3 = [0xa2, 0x68, 0x69]
                 \<and> current p1 = current p + 3"
    using load_store_bytes [where m = "mem p" and a = "current p"
        and bs = "[0xa2, 0x68, 0x69]" and n = 3]
    by simp
next
  assume src: "mem p w = 0x01 \<and> (w < current p \<or> current p + 3 \<le> w)"
  have room: "3 \<le> window lw p" using assms by (simp add: window_eq)
  have "cw_pack_ext lw bo hpo p 7 w 1 = (CWP_RC_OK, emit [0xd4, 0x07, 0x01] p)"
    using assms(1) src room
    by (auto simp add: cw_pack_ext_def ext_header_def reserve_ok put_byte_emit emit_emit
        store_bytes_def)
  then show "\<exists>p1. cw_pack_ext lw bo hpo p 7 w 1 = (CWP_RC_OK, p1)
                 \<and> load_bytes (mem p1) (current p) 3 = [0xd4, 0x07, 0x01]
                 \<and> current p1 = current p + 3"
    using load_store_bytes [where m = "mem p" and a = "current p"
        and bs = "[0xd4, 0x07, 0x01]" and n = 3]
    by simp
qed

theorem byte_exact_vectors_witness:
  "return_code (packer (memory_of [0x68, 0x69, 0x01]) 8 3) = CWP_RC_OK
   \<and> current (packer (memory_of [0x68, 0x69, 0x01]) 8 3) + 3
        \<le> endp (packer (memory_of [0x68, 0x69, 0x01]) 8 3)
   \<and> endp (packer (memory_of [0x68, 0x69, 0x01]) 8 3)
        - current (packer (memory_of [0x68, 0x69, 0x01]) 8 3) < 2 ^ long_bits LONG_32
   \<and> load_bytes (mem (packer (memory_of [0x68, 0x69, 0x01]) 8 3)) 0 2 = [0x68, 0x69]
   \<and> mem (packer (memory_of [0x68, 0x69, 0x01]) 8 3) 2 = 0x01
   \<and> (\<exists>p1 p2 p3.
          cw_pack_nil LONG_32 None (packer (memory_of [0x68, 0x69, 0x01]) 8 3) = (CWP_RC_OK, p1)
        \<and> cw_pack_boolean LONG_32 None p1 True = (CWP_RC_OK, p2)
        \<and> cw_pack_boolean LONG_32 None p2 False = (CWP_RC_OK, p3)
        \<and> load_bytes (mem p3) 8 3 = [0xc0, 0xc3, 0xc2]
        \<and> current p3 = 11)
   \<and> (\<exists>p1. cw_pack_str LONG_32 COMPILE_FOR_LITTLE_ENDIAN None
               (packer (memory_of [0x68, 0x69, 0x01]) 8 3) 0 2 = (CWP_RC_OK, p1)
           \<and> load_bytes (mem p1) 8 3 = [0xa2, 0x68, 0x69]
           \<and> current p1 = 11)
   \<and> (\<exists>p1. cw_pack_ext LONG_32 COMPILE_FOR_LITTLE_ENDIAN None
               (packer (memory_of [0x68, 0x69, 0x01]) 8 3) 7 2 1 = (CWP_RC_OK, p1)
           \<and> load_bytes (mem p1) 8 3 = [0xd4, 0x07, 0x01]
           \<and> current p1 = 11)"
  using byte_exact_vectors
      [where p = "packer (memory_of [0x68, 0x69, 0x01]) 8 3" and lw = LONG_32 and hpo = None
         and v = 0 and bo = COMPILE_FOR_LITTLE_ENDIAN and w = 2]
  by (simp add: packer_def memory_of_def store_bytes_def load_bytes_2 long_bits_def)

subsection \<open>The big-endian build\<close>

text \<open>
  C9. The three variants of the load and store macros are not equivalent. Compiled for
  big endian, \<open>cw_load64\<close> moves \<open>current\<close> by 4 where the other two variants move it by 8;
  and \<open>cw_store16\<close> applied to a 64-bit operand holding \<open>0x0102\<close>, the operand type that
  \<open>cw_pack_unsigned\<close> passes, writes \<open>0x00 0x00\<close> where the other two variants write
  \<open>0x01 0x02\<close>.
\<close>

theorem endian_variants_differ:
  "current (cw_load64 COMPILE_FOR_BIG_ENDIAN (unpacker (memory_of [1, 2, 3, 4, 5, 6, 7, 8]) 0 8)) = 4
   \<and> current (cw_load64 COMPILE_FOR_LITTLE_ENDIAN (unpacker (memory_of [1, 2, 3, 4, 5, 6, 7, 8]) 0 8)) = 8
   \<and> current (cw_load64 BYTE_ORDER_UNDETERMINED (unpacker (memory_of [1, 2, 3, 4, 5, 6, 7, 8]) 0 8)) = 8
   \<and> load_bytes (mem (cw_store16 COMPILE_FOR_BIG_ENDIAN (0x0102 :: 64 word) (packer (\<lambda>_. 0) 0 2))) 0 2
        = [0x00, 0x00]
   \<and> load_bytes (mem (cw_store16 COMPILE_FOR_LITTLE_ENDIAN (0x0102 :: 64 word) (packer (\<lambda>_. 0) 0 2))) 0 2
        = [0x01, 0x02]
   \<and> load_bytes (mem (cw_store16 BYTE_ORDER_UNDETERMINED (0x0102 :: 64 word) (packer (\<lambda>_. 0) 0 2))) 0 2
        = [0x01, 0x02]"
  by (simp add: cw_load64_def unpacker_def cw_store16_big_endian_64 cw_store16_bytes packer_def
      load_bytes_2 store_bytes_def be_bytes_2)

text \<open>
  C2. Compiled for big endian, \<open>cw_pack_unsigned\<close> of 256 writes \<open>0xcd 0x00 0x00\<close>; the
  shortest encoding of 256, with its value most significant byte first, is
  \<open>0xcd 0x01 0x00\<close>.
\<close>

theorem big_endian_pack_unsigned_256:
  "cw_pack_unsigned lw COMPILE_FOR_BIG_ENDIAN None (packer (\<lambda>_. 0) 0 16) 256
     = (CWP_RC_OK, emit [0xcd, 0x00, 0x00] (packer (\<lambda>_. 0) 0 16))
   \<and> spec_unsigned_encoding 256 = [0xcd, 0x01, 0x00]"
  by (cases lw)
    (simp_all add: cw_pack_unsigned_def tryMove2_def cw_pack_reserve_space_def window_def
      to_unsigned_long_def long_bits_def packer_def put_byte_emit cw_store16_big_endian_64
      emit_emit spec_unsigned_encoding_def be_bytes_2)

text \<open>
  C1. Compiled for big endian, packing the unsigned integer 256 into a buffer of 16 bytes
  and reading the three bytes written back with \<open>cw_unpack_next\<close> succeeds and yields a
  positive integer whose value is 0, not 256.
\<close>

theorem big_endian_round_trip_256:
  "fst (cw_pack_unsigned lw COMPILE_FOR_BIG_ENDIAN None (packer (\<lambda>_. 0) 0 16) 256) = CWP_RC_OK
   \<and> current (snd (cw_pack_unsigned lw COMPILE_FOR_BIG_ENDIAN None (packer (\<lambda>_. 0) 0 16) 256)) = 3
   \<and> fst (cw_unpack_next lw COMPILE_FOR_BIG_ENDIAN None
         (unpacker (mem (snd (cw_pack_unsigned lw COMPILE_FOR_BIG_ENDIAN None
            (packer (\<lambda>_. 0) 0 16) 256))) 0 3)) = CWP_RC_OK
   \<and> type (item (snd (cw_unpack_next lw COMPILE_FOR_BIG_ENDIAN None
         (unpacker (mem (snd (cw_pack_unsigned lw COMPILE_FOR_BIG_ENDIAN None
            (packer (\<lambda>_. 0) 0 16) 256))) 0 3)))) = CWP_ITEM_POSITIVE_INTEGER
   \<and> as_i64 (item (snd (cw_unpack_next lw COMPILE_FOR_BIG_ENDIAN None
         (unpacker (mem (snd (cw_pack_unsigned lw COMPILE_FOR_BIG_ENDIAN None
            (packer (\<lambda>_. 0) 0 16) 256))) 0 3)))) = 0"
  by (cases lw)
    (simp_all add: cw_pack_unsigned_def tryMove2_def cw_pack_reserve_space_def window_def
      to_unsigned_long_def long_bits_def packer_def put_byte_emit cw_store16_big_endian_64
      emit_emit unpacker_def unpack_defs assert_space_ok store_bytes_def load_bytes_2 be_word_2)

subsection \<open>Arithmetic in 32 bits\<close>

text \<open>
  C7. \<open>cw_pack_str\<close> of a payload of \<open>2 ^ 32 - 1\<close> bytes needs \<open>2 ^ 32 + 4\<close> bytes. On a context
  without handler whose window is 4 bytes long it does not return buffer overflow: the
  size \<open>l+5\<close> wraps around to 4, the reservation passes, the call returns OK and \<open>current\<close>
  ends at \<open>2 ^ 32 + 4\<close>, beyond \<open>end\<close>.
\<close>

theorem pack_str_reservation_wraps:
  "fst (cw_pack_str lw BYTE_ORDER_UNDETERMINED None (packer (\<lambda>_. 0) 0 4) (2 ^ 33) 0xffffffff)
     = CWP_RC_OK
   \<and> return_code
        (snd (cw_pack_str lw BYTE_ORDER_UNDETERMINED None (packer (\<lambda>_. 0) 0 4) (2 ^ 33) 0xffffffff))
       = CWP_RC_OK
   \<and> current
        (snd (cw_pack_str lw BYTE_ORDER_UNDETERMINED None (packer (\<lambda>_. 0) 0 4) (2 ^ 33) 0xffffffff))
       = 4 + 2 ^ 32
   \<and> endp
        (snd (cw_pack_str lw BYTE_ORDER_UNDETERMINED None (packer (\<lambda>_. 0) 0 4) (2 ^ 33) 0xffffffff))
       = 4"
  by (cases lw)
    (simp_all add: cw_pack_str_def cw_pack_reserve_space_def window_def to_unsigned_long_def
      long_bits_def packer_def put_byte_emit cw_store32_bytes emit_emit copy_blob_emit)

text \<open>
  C3. The memory \<open>wide_map_memory\<close> holds a legal stream of one item, \<open>5 + 2 ^ 32\<close> bytes long:
  a map 32 header announcing \<open>2 ^ 31\<close> pairs and \<open>2 ^ 32\<close> nil items. \<open>cw_skip_items\<close> with a
  count of 1 returns OK after the 5 bytes of the header: \<open>2*tmpu32\<close> wraps around to 0 and
  nothing is added to \<open>item_count\<close>.
\<close>

theorem skip_map32_wraps:
  "items_at wide_map_memory 0 1 (5 + 2 ^ 32)
   \<and> cw_skip_items lw bo None (unpacker wide_map_memory 0 (5 + 2 ^ 32)) 1
       = Some (CWP_RC_OK, (unpacker wide_map_memory 0 (5 + 2 ^ 32))\<lparr>current := 5\<rparr>)"
  using wide_legal wide_skip by simp

end
